theory Spec2Isabelle
  imports Main "HOL-Library.Word" "HOL-Library.Sublist"
begin

section \<open>The hook tables of nrf\_802154\_core\_hooks.c\<close>

subsection \<open>Build configuration\<close>

text \<open>
  The four preprocessor flags that the \<^verbatim>\<open>#if\<close> lines of the file test. They are fixed
  when the file is compiled; every table below is a function of them.
\<close>

record config =
  NRF_802154_CSMA_CA_ENABLED :: bool
  NRF_802154_ACK_TIMEOUT_ENABLED :: bool
  NRF_802154_DELAYED_TRX_ENABLED :: bool
  NRF_802154_IFS_ENABLED :: bool

text \<open>
  The external functions whose addresses the tables hold. The functions themselves live in
  the mac\_features modules; here only their identity matters.
\<close>

datatype hook_fn =
    nrf_802154_csma_ca_abort
  | nrf_802154_ack_timeout_abort
  | nrf_802154_delayed_trx_abort
  | nrf_802154_ifs_abort
  | nrf_802154_tx_timeout_abort
  | nrf_802154_csma_ca_pretransmission
  | nrf_802154_ifs_pretransmission
  | nrf_802154_tx_timeout_transmission_ready
  | nrf_802154_ack_timeout_transmitted_hook
  | nrf_802154_ifs_transmitted_hook
  | nrf_802154_csma_ca_tx_failed_hook
  | nrf_802154_ack_timeout_tx_failed_hook
  | nrf_802154_csma_ca_tx_started_hook
  | nrf_802154_ack_timeout_tx_started_hook
  | nrf_802154_delayed_trx_rx_started_hook
  | nrf_802154_ack_timeout_rx_ack_started_hook
  | nrf_802154_csma_ca_prio_changed_hook

text \<open>
  \<^verbatim>\<open>#if FLAG\<close> ... \<^verbatim>\<open>#endif\<close> around initialisers: the entries are part of the array
  when the flag is set and are not compiled at all otherwise.
\<close>

definition ifdef :: "bool \<Rightarrow> 'a list \<Rightarrow> 'a list" where
  "ifdef flag entries = (if flag then entries else [])"

text \<open>
  The nine \<^verbatim>\<open>static const\<close> arrays. An entry is a function pointer; \<open>None\<close> is
  \<^verbatim>\<open>NULL\<close>. The length of the list is \<^verbatim>\<open>sizeof(tbl) / sizeof(tbl[0])\<close>.
\<close>

definition m_abort_hooks :: "config \<Rightarrow> hook_fn option list" where
  "m_abort_hooks c =
     ifdef (NRF_802154_CSMA_CA_ENABLED c) [Some nrf_802154_csma_ca_abort] @
     ifdef (NRF_802154_ACK_TIMEOUT_ENABLED c) [Some nrf_802154_ack_timeout_abort] @
     ifdef (NRF_802154_DELAYED_TRX_ENABLED c) [Some nrf_802154_delayed_trx_abort] @
     ifdef (NRF_802154_IFS_ENABLED c) [Some nrf_802154_ifs_abort] @
     [Some nrf_802154_tx_timeout_abort]"

definition m_pre_transmission_hooks :: "config \<Rightarrow> hook_fn option list" where
  "m_pre_transmission_hooks c =
     ifdef (NRF_802154_CSMA_CA_ENABLED c) [Some nrf_802154_csma_ca_pretransmission] @
     ifdef (NRF_802154_IFS_ENABLED c) [Some nrf_802154_ifs_pretransmission] @
     [None]"

definition m_transmission_ready_hooks :: "config \<Rightarrow> hook_fn option list" where
  "m_transmission_ready_hooks c = [Some nrf_802154_tx_timeout_transmission_ready]"

definition m_transmitted_hooks :: "config \<Rightarrow> hook_fn option list" where
  "m_transmitted_hooks c =
     ifdef (NRF_802154_ACK_TIMEOUT_ENABLED c) [Some nrf_802154_ack_timeout_transmitted_hook] @
     ifdef (NRF_802154_IFS_ENABLED c) [Some nrf_802154_ifs_transmitted_hook] @
     [None]"

definition m_tx_failed_hooks :: "config \<Rightarrow> hook_fn option list" where
  "m_tx_failed_hooks c =
     ifdef (NRF_802154_CSMA_CA_ENABLED c) [Some nrf_802154_csma_ca_tx_failed_hook] @
     ifdef (NRF_802154_ACK_TIMEOUT_ENABLED c) [Some nrf_802154_ack_timeout_tx_failed_hook] @
     [None]"

definition m_tx_started_hooks :: "config \<Rightarrow> hook_fn option list" where
  "m_tx_started_hooks c =
     ifdef (NRF_802154_CSMA_CA_ENABLED c) [Some nrf_802154_csma_ca_tx_started_hook] @
     ifdef (NRF_802154_ACK_TIMEOUT_ENABLED c) [Some nrf_802154_ack_timeout_tx_started_hook] @
     [None]"

definition m_rx_started_hooks :: "config \<Rightarrow> hook_fn option list" where
  "m_rx_started_hooks c =
     ifdef (NRF_802154_DELAYED_TRX_ENABLED c) [Some nrf_802154_delayed_trx_rx_started_hook] @
     [None]"

definition m_rx_ack_started_hooks :: "config \<Rightarrow> hook_fn option list" where
  "m_rx_ack_started_hooks c =
     ifdef (NRF_802154_ACK_TIMEOUT_ENABLED c) [Some nrf_802154_ack_timeout_rx_ack_started_hook] @
     [None]"

definition m_prio_changed_hooks :: "config \<Rightarrow> hook_fn option list" where
  "m_prio_changed_hooks c =
     ifdef (NRF_802154_CSMA_CA_ENABLED c) [Some nrf_802154_csma_ca_prio_changed_hook] @
     [None]"

section \<open>Calls, the machine state and faults\<close>

text \<open>
  The arguments of the nine hook types (the \<^verbatim>\<open>typedef\<close>s at the head of the file), which are
  also the arguments of the nine entry points. \<^verbatim>\<open>nrf_802154_term_t\<close>,
  \<^verbatim>\<open>req_originator_t\<close>, \<^verbatim>\<open>nrf_802154_tx_error_t\<close> and
  \<^verbatim>\<open>nrf_802154_transmit_failed_notify_t\<close> are declared in headers outside this file, so
  they are the type parameters \<open>'t\<close>, \<open>'o\<close>, \<open>'e\<close> and \<open>'n\<close>. A
  \<^verbatim>\<open>const uint8_t *\<close> is an address; \<^verbatim>\<open>uint32_t\<close> is a 32-bit word.
\<close>

type_synonym frame_ptr = nat

datatype ('t, 'o, 'e, 'n) hook_args =
    Abort_args 't 'o
  | Pre_transmission_args frame_ptr bool 'n
  | Transmission_ready_args frame_ptr bool
  | Transmitted_args frame_ptr
  | Tx_failed_args frame_ptr 'e
  | Tx_started_args frame_ptr
  | Rx_started_args frame_ptr
  | Rx_ack_started_args
  | Prio_changed_args "32 word" "32 word"

text \<open>
  One call through a table entry, as an observer outside the file sees it: which function
  was entered, with which arguments, and what it returned (\<open>None\<close> for a \<^verbatim>\<open>void\<close>
  hook).
\<close>

datatype 'a call = Call (callee: hook_fn) (passed: 'a) (returned: "bool option")

text \<open>
  The file has no variable of its own besides the constant tables. Everything a hook can
  read or change (the feature modules' statics, the frame buffers, the radio) is the
  \<open>world\<close>, of an arbitrary type \<open>'w\<close>. \<open>calls\<close> and \<open>iterations\<close> are
  observation only: the log of calls made through table entries and the number of loop
  bodies entered. The model appends to the one and increments the other; no verdict, no
  branch and no argument of a hook is computed from them.
\<close>

record ('w, 'a) machine =
  world :: 'w
  calls :: "'a call list"
  iterations :: nat

text \<open>
  The behaviour of the external hook functions: a hook that returns \<^verbatim>\<open>bool\<close> maps the
  world to its verdict and the new world, a \<^verbatim>\<open>void\<close> hook maps the world to the new
  world. Hooks are assumed to return.
\<close>

record ('w, 'a) hooks =
  bool_hook :: "hook_fn \<Rightarrow> 'a \<Rightarrow> 'w \<Rightarrow> bool \<times> 'w"
  void_hook :: "hook_fn \<Rightarrow> 'a \<Rightarrow> 'w \<Rightarrow> 'w"

text \<open>
  What C leaves undefined is a fault of the model: reading \<^verbatim>\<open>tbl[i]\<close> beyond the array,
  and calling through a \<^verbatim>\<open>NULL\<close> pointer.
\<close>

datatype fault = Out_of_bounds | Null_call

definition fetch :: "'h option list \<Rightarrow> nat \<Rightarrow> fault + 'h option" where
  "fetch tbl i = (if i < length tbl then Inr (tbl ! i) else Inl Out_of_bounds)"

definition enter_body :: "('w, 'a) machine \<Rightarrow> ('w, 'a) machine" where
  "enter_body s = s\<lparr>iterations := iterations s + 1\<rparr>"

definition call_bool ::
  "('w, 'a) hooks \<Rightarrow> hook_fn option \<Rightarrow> 'a \<Rightarrow> ('w, 'a) machine \<Rightarrow> fault + (bool \<times> ('w, 'a) machine)" where
  "call_bool E p a s =
     (case p of
        None \<Rightarrow> Inl Null_call
      | Some h \<Rightarrow>
          (case bool_hook E h a (world s) of
             (r, w') \<Rightarrow> Inr (r, s\<lparr>world := w', calls := calls s @ [Call h a (Some r)]\<rparr>)))"

definition call_void ::
  "('w, 'a) hooks \<Rightarrow> hook_fn option \<Rightarrow> 'a \<Rightarrow> ('w, 'a) machine \<Rightarrow> fault + ('w, 'a) machine" where
  "call_void E p a s =
     (case p of
        None \<Rightarrow> Inl Null_call
      | Some h \<Rightarrow>
          Inr (s\<lparr>world := void_hook E h a (world s), calls := calls s @ [Call h a None]\<rparr>))"

section \<open>The dispatch loops\<close>

text \<open>
  The loop of the four entry points that return \<^verbatim>\<open>bool\<close>:
  \<^verbatim>\<open>
  for (uint32_t i = 0; i < sizeof(tbl) / sizeof(tbl[0]); i++)
  {
      if (tbl[i] == NULL) { break; }
      result = tbl[i](args);
      if (!result) { break; }
  }
  return result;
  \<close>
  The four copies differ in the table and in the arguments only. \<open>i\<close> is a
  \<^verbatim>\<open>uint32_t\<close>; no table has more than five entries (\<open>table_length_le_5\<close>), so the
  increment never wraps and \<open>i\<close> is a natural number here.
\<close>

function and_loop ::
  "('w, 'a) hooks \<Rightarrow> hook_fn option list \<Rightarrow> 'a \<Rightarrow> nat \<Rightarrow> bool \<Rightarrow> ('w, 'a) machine
     \<Rightarrow> fault + (bool \<times> ('w, 'a) machine)" where
  "and_loop E tbl a i result s =
     (if i < length tbl then
        (case fetch tbl i of
           Inl f \<Rightarrow> Inl f
         | Inr p \<Rightarrow>
             if p = None then Inr (result, enter_body s)
             else
               (case call_bool E p a (enter_body s) of
                  Inl f \<Rightarrow> Inl f
                | Inr (r, s') \<Rightarrow>
                    if \<not> r then Inr (r, s')
                    else and_loop E tbl a (i + 1) r s'))
      else Inr (result, s))"
  by pat_completeness auto
termination
  by (relation "measure (\<lambda>(E, tbl, a, i, result, s). length tbl - i)") auto

text \<open>
  The loop of the five \<^verbatim>\<open>void\<close> entry points:
  \<^verbatim>\<open>
  for (uint32_t i = 0; i < sizeof(tbl) / sizeof(tbl[0]); i++)
  {
      if (tbl[i] == NULL) { break; }
      tbl[i](args);
  }
  \<close>
\<close>

function fanout_loop ::
  "('w, 'a) hooks \<Rightarrow> hook_fn option list \<Rightarrow> 'a \<Rightarrow> nat \<Rightarrow> ('w, 'a) machine
     \<Rightarrow> fault + ('w, 'a) machine" where
  "fanout_loop E tbl a i s =
     (if i < length tbl then
        (case fetch tbl i of
           Inl f \<Rightarrow> Inl f
         | Inr p \<Rightarrow>
             if p = None then Inr (enter_body s)
             else
               (case call_void E p a (enter_body s) of
                  Inl f \<Rightarrow> Inl f
                | Inr s' \<Rightarrow> fanout_loop E tbl a (i + 1) s'))
      else Inr s)"
  by pat_completeness auto
termination
  by (relation "measure (\<lambda>(E, tbl, a, i, s). length tbl - i)") auto

section \<open>The nine entry points\<close>

definition nrf_802154_core_hooks_terminate ::
  "('w, ('t, 'o, 'e, 'n) hook_args) hooks \<Rightarrow> config \<Rightarrow> 't \<Rightarrow> 'o \<Rightarrow> ('w, ('t, 'o, 'e, 'n) hook_args) machine
     \<Rightarrow> fault + (bool \<times> ('w, ('t, 'o, 'e, 'n) hook_args) machine)" where
  "nrf_802154_core_hooks_terminate E c term_lvl req_orig s =
     and_loop E (m_abort_hooks c) (Abort_args term_lvl req_orig) 0 True s"

definition nrf_802154_core_hooks_pre_transmission ::
  "('w, ('t, 'o, 'e, 'n) hook_args) hooks \<Rightarrow> config \<Rightarrow> frame_ptr \<Rightarrow> bool \<Rightarrow> 'n
     \<Rightarrow> ('w, ('t, 'o, 'e, 'n) hook_args) machine
     \<Rightarrow> fault + (bool \<times> ('w, ('t, 'o, 'e, 'n) hook_args) machine)" where
  "nrf_802154_core_hooks_pre_transmission E c p_frame cca notify_function s =
     and_loop E (m_pre_transmission_hooks c)
       (Pre_transmission_args p_frame cca notify_function) 0 True s"

definition nrf_802154_core_hooks_transmission_ready ::
  "('w, ('t, 'o, 'e, 'n) hook_args) hooks \<Rightarrow> config \<Rightarrow> frame_ptr \<Rightarrow> bool
     \<Rightarrow> ('w, ('t, 'o, 'e, 'n) hook_args) machine \<Rightarrow> fault + ('w, ('t, 'o, 'e, 'n) hook_args) machine" where
  "nrf_802154_core_hooks_transmission_ready E c p_frame ready s =
     fanout_loop E (m_transmission_ready_hooks c) (Transmission_ready_args p_frame ready) 0 s"

definition nrf_802154_core_hooks_transmitted ::
  "('w, ('t, 'o, 'e, 'n) hook_args) hooks \<Rightarrow> config \<Rightarrow> frame_ptr
     \<Rightarrow> ('w, ('t, 'o, 'e, 'n) hook_args) machine \<Rightarrow> fault + ('w, ('t, 'o, 'e, 'n) hook_args) machine" where
  "nrf_802154_core_hooks_transmitted E c p_frame s =
     fanout_loop E (m_transmitted_hooks c) (Transmitted_args p_frame) 0 s"

definition nrf_802154_core_hooks_tx_failed ::
  "('w, ('t, 'o, 'e, 'n) hook_args) hooks \<Rightarrow> config \<Rightarrow> frame_ptr \<Rightarrow> 'e
     \<Rightarrow> ('w, ('t, 'o, 'e, 'n) hook_args) machine
     \<Rightarrow> fault + (bool \<times> ('w, ('t, 'o, 'e, 'n) hook_args) machine)" where
  "nrf_802154_core_hooks_tx_failed E c p_frame error s =
     and_loop E (m_tx_failed_hooks c) (Tx_failed_args p_frame error) 0 True s"

definition nrf_802154_core_hooks_tx_started ::
  "('w, ('t, 'o, 'e, 'n) hook_args) hooks \<Rightarrow> config \<Rightarrow> frame_ptr
     \<Rightarrow> ('w, ('t, 'o, 'e, 'n) hook_args) machine
     \<Rightarrow> fault + (bool \<times> ('w, ('t, 'o, 'e, 'n) hook_args) machine)" where
  "nrf_802154_core_hooks_tx_started E c p_frame s =
     and_loop E (m_tx_started_hooks c) (Tx_started_args p_frame) 0 True s"

definition nrf_802154_core_hooks_rx_started ::
  "('w, ('t, 'o, 'e, 'n) hook_args) hooks \<Rightarrow> config \<Rightarrow> frame_ptr
     \<Rightarrow> ('w, ('t, 'o, 'e, 'n) hook_args) machine \<Rightarrow> fault + ('w, ('t, 'o, 'e, 'n) hook_args) machine" where
  "nrf_802154_core_hooks_rx_started E c p_frame s =
     fanout_loop E (m_rx_started_hooks c) (Rx_started_args p_frame) 0 s"

definition nrf_802154_core_hooks_rx_ack_started ::
  "('w, ('t, 'o, 'e, 'n) hook_args) hooks \<Rightarrow> config
     \<Rightarrow> ('w, ('t, 'o, 'e, 'n) hook_args) machine \<Rightarrow> fault + ('w, ('t, 'o, 'e, 'n) hook_args) machine" where
  "nrf_802154_core_hooks_rx_ack_started E c s =
     fanout_loop E (m_rx_ack_started_hooks c) Rx_ack_started_args 0 s"

definition nrf_802154_core_hooks_prio_changed ::
  "('w, ('t, 'o, 'e, 'n) hook_args) hooks \<Rightarrow> config \<Rightarrow> 32 word \<Rightarrow> 32 word
     \<Rightarrow> ('w, ('t, 'o, 'e, 'n) hook_args) machine \<Rightarrow> fault + ('w, ('t, 'o, 'e, 'n) hook_args) machine" where
  "nrf_802154_core_hooks_prio_changed E c old_prio new_prio s =
     fanout_loop E (m_prio_changed_hooks c) (Prio_changed_args old_prio new_prio) 0 s"

section \<open>Vocabulary of the specification\<close>

text \<open>
  One entry point for all nine channels: the constructor of the arguments selects the
  channel. A \<^verbatim>\<open>bool\<close> channel yields \<open>Some\<close> of its verdict, a \<^verbatim>\<open>void\<close> channel
  \<open>None\<close>.
\<close>

definition with_verdict :: "fault + (bool \<times> 's) \<Rightarrow> fault + (bool option \<times> 's)" where
  "with_verdict x = (case x of Inl f \<Rightarrow> Inl f | Inr (r, s') \<Rightarrow> Inr (Some r, s'))"

definition no_verdict :: "fault + 's \<Rightarrow> fault + (bool option \<times> 's)" where
  "no_verdict x = (case x of Inl f \<Rightarrow> Inl f | Inr s' \<Rightarrow> Inr (None, s'))"

fun core_hooks ::
  "('w, ('t, 'o, 'e, 'n) hook_args) hooks \<Rightarrow> config \<Rightarrow> ('t, 'o, 'e, 'n) hook_args
     \<Rightarrow> ('w, ('t, 'o, 'e, 'n) hook_args) machine
     \<Rightarrow> fault + (bool option \<times> ('w, ('t, 'o, 'e, 'n) hook_args) machine)" where
  "core_hooks E c (Abort_args term_lvl req_orig) s =
     with_verdict (nrf_802154_core_hooks_terminate E c term_lvl req_orig s)"
| "core_hooks E c (Pre_transmission_args p_frame cca notify_function) s =
     with_verdict (nrf_802154_core_hooks_pre_transmission E c p_frame cca notify_function s)"
| "core_hooks E c (Transmission_ready_args p_frame ready) s =
     no_verdict (nrf_802154_core_hooks_transmission_ready E c p_frame ready s)"
| "core_hooks E c (Transmitted_args p_frame) s =
     no_verdict (nrf_802154_core_hooks_transmitted E c p_frame s)"
| "core_hooks E c (Tx_failed_args p_frame error) s =
     with_verdict (nrf_802154_core_hooks_tx_failed E c p_frame error s)"
| "core_hooks E c (Tx_started_args p_frame) s =
     with_verdict (nrf_802154_core_hooks_tx_started E c p_frame s)"
| "core_hooks E c (Rx_started_args p_frame) s =
     no_verdict (nrf_802154_core_hooks_rx_started E c p_frame s)"
| "core_hooks E c Rx_ack_started_args s =
     no_verdict (nrf_802154_core_hooks_rx_ack_started E c s)"
| "core_hooks E c (Prio_changed_args old_prio new_prio) s =
     no_verdict (nrf_802154_core_hooks_prio_changed E c old_prio new_prio s)"

text \<open>The nine channels, the channel a call belongs to, and the table its entry point loops over.\<close>

datatype channel =
    terminate
  | pre_transmission
  | transmission_ready
  | transmitted
  | tx_failed
  | tx_started
  | rx_started
  | rx_ack_started
  | prio_changed

fun channel_of :: "('t, 'o, 'e, 'n) hook_args \<Rightarrow> channel" where
  "channel_of (Abort_args term_lvl req_orig) = terminate"
| "channel_of (Pre_transmission_args p_frame cca notify_function) = pre_transmission"
| "channel_of (Transmission_ready_args p_frame ready) = transmission_ready"
| "channel_of (Transmitted_args p_frame) = transmitted"
| "channel_of (Tx_failed_args p_frame error) = tx_failed"
| "channel_of (Tx_started_args p_frame) = tx_started"
| "channel_of (Rx_started_args p_frame) = rx_started"
| "channel_of Rx_ack_started_args = rx_ack_started"
| "channel_of (Prio_changed_args old_prio new_prio) = prio_changed"

fun table :: "config \<Rightarrow> channel \<Rightarrow> hook_fn option list" where
  "table c terminate = m_abort_hooks c"
| "table c pre_transmission = m_pre_transmission_hooks c"
| "table c transmission_ready = m_transmission_ready_hooks c"
| "table c transmitted = m_transmitted_hooks c"
| "table c tx_failed = m_tx_failed_hooks c"
| "table c tx_started = m_tx_started_hooks c"
| "table c rx_started = m_rx_started_hooks c"
| "table c rx_ack_started = m_rx_ack_started_hooks c"
| "table c prio_changed = m_prio_changed_hooks c"

text \<open>Whether a channel returns \<^verbatim>\<open>bool\<close> (AND-short-circuit) or nothing (fan-out).\<close>

fun returns_bool :: "channel \<Rightarrow> bool" where
  "returns_bool terminate = True"
| "returns_bool pre_transmission = True"
| "returns_bool tx_failed = True"
| "returns_bool tx_started = True"
| "returns_bool ch = False"

text \<open>
  The candidate sequence of a table: its entries up to the first \<^verbatim>\<open>NULL\<close>, or all of
  them when it holds none.
\<close>

definition candidates :: "'h option list \<Rightarrow> 'h list" where
  "candidates tbl = map the (takeWhile (\<lambda>p. p \<noteq> None) tbl)"

text \<open>
  The feature modules in the specification's global priority order; the module each hook
  function belongs to (the flag of the \<^verbatim>\<open>#if\<close> around its entries, and the header
  it is declared in; the TX-timeout hooks stand outside every \<^verbatim>\<open>#if\<close>); and when a
  module is compiled in.
\<close>

datatype feature = CSMA_CA | ACK_TIMEOUT | DELAYED_TRX | IFS | TX_TIMEOUT

fun priority :: "feature \<Rightarrow> nat" where
  "priority CSMA_CA = 0"
| "priority ACK_TIMEOUT = 1"
| "priority DELAYED_TRX = 2"
| "priority IFS = 3"
| "priority TX_TIMEOUT = 4"

fun feature_of :: "hook_fn \<Rightarrow> feature" where
  "feature_of nrf_802154_csma_ca_abort = CSMA_CA"
| "feature_of nrf_802154_ack_timeout_abort = ACK_TIMEOUT"
| "feature_of nrf_802154_delayed_trx_abort = DELAYED_TRX"
| "feature_of nrf_802154_ifs_abort = IFS"
| "feature_of nrf_802154_tx_timeout_abort = TX_TIMEOUT"
| "feature_of nrf_802154_csma_ca_pretransmission = CSMA_CA"
| "feature_of nrf_802154_ifs_pretransmission = IFS"
| "feature_of nrf_802154_tx_timeout_transmission_ready = TX_TIMEOUT"
| "feature_of nrf_802154_ack_timeout_transmitted_hook = ACK_TIMEOUT"
| "feature_of nrf_802154_ifs_transmitted_hook = IFS"
| "feature_of nrf_802154_csma_ca_tx_failed_hook = CSMA_CA"
| "feature_of nrf_802154_ack_timeout_tx_failed_hook = ACK_TIMEOUT"
| "feature_of nrf_802154_csma_ca_tx_started_hook = CSMA_CA"
| "feature_of nrf_802154_ack_timeout_tx_started_hook = ACK_TIMEOUT"
| "feature_of nrf_802154_delayed_trx_rx_started_hook = DELAYED_TRX"
| "feature_of nrf_802154_ack_timeout_rx_ack_started_hook = ACK_TIMEOUT"
| "feature_of nrf_802154_csma_ca_prio_changed_hook = CSMA_CA"

fun enabled :: "config \<Rightarrow> feature \<Rightarrow> bool" where
  "enabled c CSMA_CA = NRF_802154_CSMA_CA_ENABLED c"
| "enabled c ACK_TIMEOUT = NRF_802154_ACK_TIMEOUT_ENABLED c"
| "enabled c DELAYED_TRX = NRF_802154_DELAYED_TRX_ENABLED c"
| "enabled c IFS = NRF_802154_IFS_ENABLED c"
| "enabled c TX_TIMEOUT = True"

text \<open>
  What a run of candidates does to the world, without the loop: the verdict, the calls
  and the final world of an AND-short-circuit over a list of hooks, and the final world of a
  fan-out.
\<close>

fun and_run ::
  "('w, 'a) hooks \<Rightarrow> 'a \<Rightarrow> hook_fn list \<Rightarrow> bool \<Rightarrow> 'w \<Rightarrow> bool \<times> 'a call list \<times> 'w" where
  "and_run E a [] result w = (result, [], w)"
| "and_run E a (h # hs) result w =
     (case bool_hook E h a w of
        (r, w') \<Rightarrow>
          if r then (case and_run E a hs r w' of (r', cs, w'') \<Rightarrow> (r', Call h a (Some r) # cs, w''))
          else (r, [Call h a (Some r)], w'))"

definition fanout_run :: "('w, 'a) hooks \<Rightarrow> 'a \<Rightarrow> hook_fn list \<Rightarrow> 'w \<Rightarrow> 'a call list \<times> 'w" where
  "fanout_run E a hs w = (map (\<lambda>h. Call h a None) hs, foldl (\<lambda>w h. void_hook E h a w) w hs)"

text \<open>
  The AND-short-circuit policy, in the specification's words, as a property of the calls
  \<open>new\<close> one channel call made and of the verdict \<open>r\<close> it returned: candidates are
  invoked in order and with the channel's arguments; the running result starts as true and
  each candidate's return value becomes it; every call but the last returned true (nothing
  is invoked after a false); the verdict is the last return value; it is true exactly when
  all candidates ran and all returned true; and an empty sequence gives true with no call.
\<close>

definition and_short_circuit :: "hook_fn list \<Rightarrow> 'a \<Rightarrow> 'a call list \<Rightarrow> bool \<Rightarrow> bool" where
  "and_short_circuit cands a new r \<longleftrightarrow>
     prefix (map callee new) cands \<and>
     list_all (\<lambda>c. passed c = a) new \<and>
     r = foldl (\<lambda>result c. returned c = Some True) True new \<and>
     list_all (\<lambda>c. returned c = Some True) (butlast new) \<and>
     (new \<noteq> [] \<longrightarrow> returned (last new) = Some r) \<and>
     (r \<longleftrightarrow> map callee new = cands \<and> list_all (\<lambda>c. returned c = Some True) new) \<and>
     (cands = [] \<longrightarrow> r \<and> new = [])"

text \<open>
  The fan-out policy, as a property of the calls \<open>new\<close> one channel call made: they are
  the candidates, each once, in their order, each with the channel's arguments.
\<close>

definition fan_out :: "hook_fn list \<Rightarrow> 'a \<Rightarrow> 'a call list \<Rightarrow> bool" where
  "fan_out cands a new \<longleftrightarrow> new = map (\<lambda>h. Call h a None) cands \<and> distinct cands"

text \<open>
  Two build configurations the specification names: no optional feature compiled in, and
  CSMA/CA with ACK-timeout only.
\<close>

definition no_features :: config where
  "no_features =
     \<lparr>NRF_802154_CSMA_CA_ENABLED = False, NRF_802154_ACK_TIMEOUT_ENABLED = False,
        NRF_802154_DELAYED_TRX_ENABLED = False, NRF_802154_IFS_ENABLED = False\<rparr>"

definition csma_and_ack :: config where
  "csma_and_ack =
     \<lparr>NRF_802154_CSMA_CA_ENABLED = True, NRF_802154_ACK_TIMEOUT_ENABLED = True,
        NRF_802154_DELAYED_TRX_ENABLED = False, NRF_802154_IFS_ENABLED = False\<rparr>"

text \<open>
  The order of two hooks by the priority of their modules; the configuration with every
  optional feature compiled in; and the \<^verbatim>\<open>NULL\<close> that closes seven of the nine arrays
  (\<^verbatim>\<open>m_abort_hooks\<close> and \<^verbatim>\<open>m_transmission_ready_hooks\<close> have none).
\<close>

definition by_priority :: "hook_fn \<Rightarrow> hook_fn \<Rightarrow> bool" where
  "by_priority h h' \<longleftrightarrow> priority (feature_of h) < priority (feature_of h')"

definition all_features :: config where
  "all_features =
     \<lparr>NRF_802154_CSMA_CA_ENABLED = True, NRF_802154_ACK_TIMEOUT_ENABLED = True,
        NRF_802154_DELAYED_TRX_ENABLED = True, NRF_802154_IFS_ENABLED = True\<rparr>"

fun terminator :: "channel \<Rightarrow> hook_fn option list" where
  "terminator terminate = []"
| "terminator transmission_ready = []"
| "terminator ch = [None]"

text \<open>
  What one logged call did to the world, and what a whole channel call does as a function
  of the world alone: verdict, calls and final world.
\<close>

fun hook_effect :: "('w, 'a) hooks \<Rightarrow> 'a call \<Rightarrow> 'w \<Rightarrow> 'w" where
  "hook_effect E (Call h x None) w = void_hook E h x w"
| "hook_effect E (Call h x (Some r)) w = snd (bool_hook E h x w)"

definition channel_run ::
  "('w, ('t, 'o, 'e, 'n) hook_args) hooks \<Rightarrow> config \<Rightarrow> ('t, 'o, 'e, 'n) hook_args \<Rightarrow> 'w
     \<Rightarrow> bool option \<times> ('t, 'o, 'e, 'n) hook_args call list \<times> 'w" where
  "channel_run E c a w =
     (if returns_bool (channel_of a) then
        (case and_run E a (candidates (table c (channel_of a))) True w of
           (r, cs, w') \<Rightarrow> (Some r, cs, w'))
      else
        (case fanout_run E a (candidates (table c (channel_of a))) w of
           (cs, w') \<Rightarrow> (None, cs, w')))"

section \<open>The loops, characterised on the candidate sequence\<close>

lemma candidates_Nil [simp]: "candidates [] = []"
  by (simp add: candidates_def)

lemma candidates_None [simp]: "candidates (None # ps) = []"
  by (simp add: candidates_def)

lemma candidates_Some [simp]: "candidates (Some h # ps) = h # candidates ps"
  by (simp add: candidates_def)

lemma and_loop_run:
  "\<exists>s'. and_loop E tbl a i result s =
           Inr (fst (and_run E a (candidates (drop i tbl)) result (world s)), s') \<and>
        world s' = snd (snd (and_run E a (candidates (drop i tbl)) result (world s))) \<and>
        calls s' = calls s @ fst (snd (and_run E a (candidates (drop i tbl)) result (world s))) \<and>
        iterations s + length (fst (snd (and_run E a (candidates (drop i tbl)) result (world s))))
          \<le> iterations s' \<and>
        iterations s' \<le> iterations s + (length tbl - i)"
proof (induction E tbl a i result s rule: and_loop.induct)
  case (1 E tbl a i result s)
  show ?case
  proof (cases "i < length tbl")
    case False
    then show ?thesis by simp
  next
    case in_range: True
    then have dr: "drop i tbl = tbl ! i # drop (i + 1) tbl"
      by (simp add: Cons_nth_drop_Suc)
    show ?thesis
    proof (cases "tbl ! i")
      case None
      with in_range dr show ?thesis
        by (simp add: fetch_def enter_body_def)
    next
      case (Some h)
      obtain r w' where hk: "bool_hook E h a (world s) = (r, w')"
        by (cases "bool_hook E h a (world s)")
      let ?s1 = "enter_body s\<lparr>world := w', calls := calls (enter_body s) @ [Call h a (Some r)]\<rparr>"
      have cb': "call_bool E (Some h) a (enter_body s) = Inr (r, ?s1)"
        using hk by (simp add: call_bool_def enter_body_def)
      then have cb: "call_bool E (tbl ! i) a (enter_body s) = Inr (r, ?s1)"
        using Some by simp
      show ?thesis
      proof (cases r)
        case False
        with in_range dr Some hk cb show ?thesis
          by (simp add: fetch_def enter_body_def)
      next
        case True
        have ft: "fetch tbl i = Inr (tbl ! i)"
          using in_range by (simp add: fetch_def)
        have ne: "tbl ! i \<noteq> None"
          using Some by simp
        from "1.IH"[OF in_range ft ne cb refl] True
        obtain s' where
          st: "and_loop E tbl a (i + 1) r ?s1 =
                 Inr (fst (and_run E a (candidates (drop (i + 1) tbl)) r (world ?s1)), s')"
          and rest: "world s' = snd (snd (and_run E a (candidates (drop (i + 1) tbl)) r (world ?s1)))"
            "calls s' = calls ?s1 @ fst (snd (and_run E a (candidates (drop (i + 1) tbl)) r (world ?s1)))"
            "iterations ?s1 + length (fst (snd (and_run E a (candidates (drop (i + 1) tbl)) r (world ?s1))))
               \<le> iterations s'"
            "iterations s' \<le> iterations ?s1 + (length tbl - (i + 1))"
          by auto
        have "and_loop E tbl a i result s =
                (if i < length tbl then
                   (case fetch tbl i of
                      Inl f \<Rightarrow> Inl f
                    | Inr p \<Rightarrow>
                        if p = None then Inr (result, enter_body s)
                        else
                          (case call_bool E p a (enter_body s) of
                             Inl f \<Rightarrow> Inl f
                           | Inr (r, s') \<Rightarrow>
                               if \<not> r then Inr (r, s')
                               else and_loop E tbl a (i + 1) r s'))
                 else Inr (result, s))"
          by (rule and_loop.simps)
        also have "\<dots> = and_loop E tbl a (i + 1) r ?s1"
          using in_range Some True by (simp add: ft cb' del: and_loop.simps)
        finally have unf: "and_loop E tbl a i result s = and_loop E tbl a (i + 1) r ?s1" .
        show ?thesis
          using st rest in_range True hk Some
          apply (simp only: unf dr)
          apply (simp add: enter_body_def case_prod_beta del: and_loop.simps)
          done
      qed
    qed
  qed
qed

lemma fanout_loop_run:
  "\<exists>s'. fanout_loop E tbl a i s = Inr s' \<and>
        world s' = snd (fanout_run E a (candidates (drop i tbl)) (world s)) \<and>
        calls s' = calls s @ fst (fanout_run E a (candidates (drop i tbl)) (world s)) \<and>
        iterations s + length (candidates (drop i tbl)) \<le> iterations s' \<and>
        iterations s' \<le> iterations s + (length tbl - i)"
proof (induction E tbl a i s rule: fanout_loop.induct)
  case (1 E tbl a i s)
  show ?case
  proof (cases "i < length tbl")
    case False
    then show ?thesis by (simp add: fanout_run_def)
  next
    case in_range: True
    then have dr: "drop i tbl = tbl ! i # drop (i + 1) tbl"
      by (simp add: Cons_nth_drop_Suc)
    have ft: "fetch tbl i = Inr (tbl ! i)"
      using in_range by (simp add: fetch_def)
    show ?thesis
    proof (cases "tbl ! i")
      case None
      with in_range dr show ?thesis
        by (simp add: fetch_def enter_body_def fanout_run_def)
    next
      case (Some h)
      let ?s1 = "enter_body s\<lparr>world := void_hook E h a (world (enter_body s)),
                   calls := calls (enter_body s) @ [Call h a None]\<rparr>"
      have cv': "call_void E (Some h) a (enter_body s) = Inr ?s1"
        by (simp add: call_void_def)
      then have cv: "call_void E (tbl ! i) a (enter_body s) = Inr ?s1"
        using Some by simp
      have ne: "tbl ! i \<noteq> None"
        using Some by simp
      from "1.IH"[OF in_range ft ne cv]
      obtain s' where
        st: "fanout_loop E tbl a (i + 1) ?s1 = Inr s'"
        and rest: "world s' = snd (fanout_run E a (candidates (drop (i + 1) tbl)) (world ?s1))"
          "calls s' = calls ?s1 @ fst (fanout_run E a (candidates (drop (i + 1) tbl)) (world ?s1))"
          "iterations ?s1 + length (candidates (drop (i + 1) tbl)) \<le> iterations s'"
          "iterations s' \<le> iterations ?s1 + (length tbl - (i + 1))"
        by auto
      have "fanout_loop E tbl a i s =
              (if i < length tbl then
                 (case fetch tbl i of
                    Inl f \<Rightarrow> Inl f
                  | Inr p \<Rightarrow>
                      if p = None then Inr (enter_body s)
                      else
                        (case call_void E p a (enter_body s) of
                           Inl f \<Rightarrow> Inl f
                         | Inr s' \<Rightarrow> fanout_loop E tbl a (i + 1) s'))
               else Inr s)"
        by (rule fanout_loop.simps)
      also have "\<dots> = fanout_loop E tbl a (i + 1) ?s1"
        using in_range Some by (simp add: ft cv' del: fanout_loop.simps)
      finally have unf: "fanout_loop E tbl a i s = fanout_loop E tbl a (i + 1) ?s1" .
      show ?thesis
        using st rest in_range Some
        apply (simp only: unf dr)
        apply (simp add: enter_body_def fanout_run_def del: fanout_loop.simps)
        done
    qed
  qed
qed

lemma and_run_short_circuit:
  "and_run E a hs True w = (r, cs, w') \<Longrightarrow> and_short_circuit hs a cs r"
proof (induction hs arbitrary: w r cs w')
  case Nil
  then show ?case by (simp add: and_short_circuit_def)
next
  case (Cons h hs)
  obtain r1 w1 where hk: "bool_hook E h a w = (r1, w1)"
    by (cases "bool_hook E h a w")
  show ?case
  proof (cases r1)
    case False
    with Cons.prems hk have eqs: "r = False" "cs = [Call h a (Some False)]"
      by auto
    show ?thesis
      unfolding eqs and_short_circuit_def by simp
  next
    case True
    obtain r2 cs2 w2 where rec: "and_run E a hs True w1 = (r2, cs2, w2)"
      by (cases "and_run E a hs True w1")
    from Cons.IH[OF rec] have ih: "and_short_circuit hs a cs2 r2" .
    from Cons.prems hk True rec have eqs: "r = r2" "cs = Call h a (Some True) # cs2" "w' = w2"
      by auto
    show ?thesis
      using ih unfolding eqs and_short_circuit_def
      by (cases cs2) auto
  qed
qed

lemma with_verdict_Inr [simp]: "with_verdict (Inr (r, s')) = Inr (Some r, s')"
  by (simp add: with_verdict_def)

lemma no_verdict_Inr [simp]: "no_verdict (Inr s') = Inr (None, s')"
  by (simp add: no_verdict_def)

lemma core_hooks_and_run:
  assumes "returns_bool (channel_of a)"
  shows "\<exists>s'. core_hooks E c a s =
             Inr (Some (fst (and_run E a (candidates (table c (channel_of a))) True (world s))), s') \<and>
          world s' = snd (snd (and_run E a (candidates (table c (channel_of a))) True (world s))) \<and>
          calls s' = calls s @ fst (snd (and_run E a (candidates (table c (channel_of a))) True (world s))) \<and>
          iterations s' \<le> iterations s + length (table c (channel_of a))"
proof -
  have "\<exists>s'. and_loop E tbl a 0 True s = Inr (fst (and_run E a (candidates tbl) True (world s)), s') \<and>
          world s' = snd (snd (and_run E a (candidates tbl) True (world s))) \<and>
          calls s' = calls s @ fst (snd (and_run E a (candidates tbl) True (world s))) \<and>
          iterations s' \<le> iterations s + length tbl" for tbl
    using and_loop_run[of E tbl a 0 True s] by auto
  note gen = this
  show ?thesis
  proof (cases a)
    case (Abort_args t orig)
    with gen[of "m_abort_hooks c"] show ?thesis
      by (auto simp: nrf_802154_core_hooks_terminate_def simp del: and_loop.simps)
  next
    case (Pre_transmission_args p cca n)
    with gen[of "m_pre_transmission_hooks c"] show ?thesis
      by (auto simp: nrf_802154_core_hooks_pre_transmission_def simp del: and_loop.simps)
  next
    case (Tx_failed_args p e)
    with gen[of "m_tx_failed_hooks c"] show ?thesis
      by (auto simp: nrf_802154_core_hooks_tx_failed_def simp del: and_loop.simps)
  next
    case (Tx_started_args p)
    with gen[of "m_tx_started_hooks c"] show ?thesis
      by (auto simp: nrf_802154_core_hooks_tx_started_def simp del: and_loop.simps)
  qed (use assms in simp_all)
qed

lemma core_hooks_fanout_run:
  assumes "\<not> returns_bool (channel_of a)"
  shows "\<exists>s'. core_hooks E c a s = Inr (None, s') \<and>
          world s' = snd (fanout_run E a (candidates (table c (channel_of a))) (world s)) \<and>
          calls s' = calls s @ fst (fanout_run E a (candidates (table c (channel_of a))) (world s)) \<and>
          iterations s' \<le> iterations s + length (table c (channel_of a))"
proof -
  have "\<exists>s'. fanout_loop E tbl a 0 s = Inr s' \<and>
          world s' = snd (fanout_run E a (candidates tbl) (world s)) \<and>
          calls s' = calls s @ fst (fanout_run E a (candidates tbl) (world s)) \<and>
          iterations s' \<le> iterations s + length tbl" for tbl
    using fanout_loop_run[of E tbl a 0 s] by auto
  note gen = this
  show ?thesis
  proof (cases a)
    case (Transmission_ready_args p ready)
    with gen[of "m_transmission_ready_hooks c"] show ?thesis
      by (auto simp: nrf_802154_core_hooks_transmission_ready_def simp del: fanout_loop.simps)
  next
    case (Transmitted_args p)
    with gen[of "m_transmitted_hooks c"] show ?thesis
      by (auto simp: nrf_802154_core_hooks_transmitted_def simp del: fanout_loop.simps)
  next
    case (Rx_started_args p)
    with gen[of "m_rx_started_hooks c"] show ?thesis
      by (auto simp: nrf_802154_core_hooks_rx_started_def simp del: fanout_loop.simps)
  next
    case Rx_ack_started_args
    with gen[of "m_rx_ack_started_hooks c"] show ?thesis
      by (auto simp: nrf_802154_core_hooks_rx_ack_started_def simp del: fanout_loop.simps)
  next
    case (Prio_changed_args old new)
    with gen[of "m_prio_changed_hooks c"] show ?thesis
      by (auto simp: nrf_802154_core_hooks_prio_changed_def simp del: fanout_loop.simps)
  qed (use assms in simp_all)
qed

lemma and_loop_and_run:
  "\<exists>r new w' s'. and_run E a (candidates tbl) True (world s) = (r, new, w') \<and>
     and_loop E tbl a 0 True s = Inr (r, s') \<and> calls s' = calls s @ new \<and> world s' = w' \<and>
     and_short_circuit (candidates tbl) a new r"
proof -
  obtain r cs w' where run: "and_run E a (candidates tbl) True (world s) = (r, cs, w')"
    by (cases "and_run E a (candidates tbl) True (world s)")
  from and_loop_run[of E tbl a 0 True s] run and_run_short_circuit[OF run]
  show ?thesis by (auto simp del: and_loop.simps)
qed

subsection \<open>The candidate sequence of each table\<close>

lemma candidates_abort:
  "candidates (m_abort_hooks c) =
     ifdef (NRF_802154_CSMA_CA_ENABLED c) [nrf_802154_csma_ca_abort] @
     ifdef (NRF_802154_ACK_TIMEOUT_ENABLED c) [nrf_802154_ack_timeout_abort] @
     ifdef (NRF_802154_DELAYED_TRX_ENABLED c) [nrf_802154_delayed_trx_abort] @
     ifdef (NRF_802154_IFS_ENABLED c) [nrf_802154_ifs_abort] @
     [nrf_802154_tx_timeout_abort]"
  by (simp add: m_abort_hooks_def ifdef_def)

lemma candidates_pre_transmission:
  "candidates (m_pre_transmission_hooks c) =
     ifdef (NRF_802154_CSMA_CA_ENABLED c) [nrf_802154_csma_ca_pretransmission] @
     ifdef (NRF_802154_IFS_ENABLED c) [nrf_802154_ifs_pretransmission]"
  by (simp add: m_pre_transmission_hooks_def ifdef_def)

lemma candidates_transmission_ready:
  "candidates (m_transmission_ready_hooks c) = [nrf_802154_tx_timeout_transmission_ready]"
  by (simp add: m_transmission_ready_hooks_def)

lemma candidates_transmitted:
  "candidates (m_transmitted_hooks c) =
     ifdef (NRF_802154_ACK_TIMEOUT_ENABLED c) [nrf_802154_ack_timeout_transmitted_hook] @
     ifdef (NRF_802154_IFS_ENABLED c) [nrf_802154_ifs_transmitted_hook]"
  by (simp add: m_transmitted_hooks_def ifdef_def)

lemma candidates_tx_failed:
  "candidates (m_tx_failed_hooks c) =
     ifdef (NRF_802154_CSMA_CA_ENABLED c) [nrf_802154_csma_ca_tx_failed_hook] @
     ifdef (NRF_802154_ACK_TIMEOUT_ENABLED c) [nrf_802154_ack_timeout_tx_failed_hook]"
  by (simp add: m_tx_failed_hooks_def ifdef_def)

lemma candidates_tx_started:
  "candidates (m_tx_started_hooks c) =
     ifdef (NRF_802154_CSMA_CA_ENABLED c) [nrf_802154_csma_ca_tx_started_hook] @
     ifdef (NRF_802154_ACK_TIMEOUT_ENABLED c) [nrf_802154_ack_timeout_tx_started_hook]"
  by (simp add: m_tx_started_hooks_def ifdef_def)

lemma candidates_rx_started:
  "candidates (m_rx_started_hooks c) =
     ifdef (NRF_802154_DELAYED_TRX_ENABLED c) [nrf_802154_delayed_trx_rx_started_hook]"
  by (simp add: m_rx_started_hooks_def ifdef_def)

lemma candidates_rx_ack_started:
  "candidates (m_rx_ack_started_hooks c) =
     ifdef (NRF_802154_ACK_TIMEOUT_ENABLED c) [nrf_802154_ack_timeout_rx_ack_started_hook]"
  by (simp add: m_rx_ack_started_hooks_def ifdef_def)

lemma candidates_prio_changed:
  "candidates (m_prio_changed_hooks c) =
     ifdef (NRF_802154_CSMA_CA_ENABLED c) [nrf_802154_csma_ca_prio_changed_hook]"
  by (simp add: m_prio_changed_hooks_def ifdef_def)

lemmas candidates_tables =
  candidates_abort candidates_pre_transmission candidates_transmission_ready
  candidates_transmitted candidates_tx_failed candidates_tx_started candidates_rx_started
  candidates_rx_ack_started candidates_prio_changed

lemma fanout_loop_world:
  "\<exists>s'. fanout_loop E tbl a 0 s = Inr s' \<and>
     calls s' = calls s @ map (\<lambda>h. Call h a None) (candidates tbl) \<and>
     world s' = foldl (\<lambda>w h. void_hook E h a w) (world s) (candidates tbl)"
  using fanout_loop_run[of E tbl a 0 s] by (auto simp: fanout_run_def simp del: fanout_loop.simps)

lemma fanout_loop_effect:
  assumes "candidates tbl = cands" and "distinct cands"
  shows "\<exists>s' new. fanout_loop E tbl a 0 s = Inr s' \<and> calls s' = calls s @ new \<and>
           fan_out cands a new \<and>
           world s' = foldl (\<lambda>w h. void_hook E h a w) (world s) cands"
  using fanout_loop_run[of E tbl a 0 s] assms
  by (auto simp: fan_out_def fanout_run_def simp del: fanout_loop.simps)

subsection \<open>Short tables\<close>

lemma and_loop_no_candidates:
  assumes "candidates tbl = []"
  shows "\<exists>s'. and_loop E tbl a 0 True s = Inr (True, s') \<and> calls s' = calls s \<and>
           world s' = world s"
  using and_loop_run[of E tbl a 0 True s] assms by (auto simp del: and_loop.simps)


lemma and_loop_one_candidate:
  assumes "candidates tbl = [h]"
  shows "\<exists>s'. and_loop E tbl a 0 True s = Inr (fst (bool_hook E h a (world s)), s') \<and>
           calls s' = calls s @ [Call h a (Some (fst (bool_hook E h a (world s))))] \<and>
           world s' = snd (bool_hook E h a (world s))"
  using and_loop_run[of E tbl a 0 True s] assms
  by (auto simp: case_prod_beta simp del: and_loop.simps)

lemma and_short_circuit_last:
  assumes "and_short_circuit cands a new r" and "r" and "cands \<noteq> []"
  shows "new \<noteq> [] \<and> last new = Call (last cands) a (Some True)"
proof -
  from assms have all: "map callee new = cands" "list_all (\<lambda>c. passed c = a) new"
    "list_all (\<lambda>c. returned c = Some True) new"
    by (auto simp: and_short_circuit_def)
  with assms(3) have ne: "new \<noteq> []"
    by auto
  then have "last new \<in> set new"
    by simp
  with all have "passed (last new) = a" "returned (last new) = Some True"
    by (auto simp: list_all_iff)
  moreover have "callee (last new) = last cands"
    using all(1) ne by (metis last_map)
  ultimately show ?thesis
    using ne by (cases "last new") simp
qed

subsection \<open>Calls of a channel and the shape of its table\<close>

lemma and_run_prefix:
  "prefix (map callee (fst (snd (and_run E a hs True w)))) hs"
  using and_run_short_circuit[of E a hs w]
  by (cases "and_run E a hs True w") (simp add: and_short_circuit_def)

lemma and_run_passed:
  "list_all (\<lambda>cl. passed cl = a) (fst (snd (and_run E a hs True w)))"
  using and_run_short_circuit[of E a hs w]
  by (cases "and_run E a hs True w") (simp add: and_short_circuit_def)

lemma core_hooks_calls:
  "\<exists>v s' new. core_hooks E c a s = Inr (v, s') \<and> calls s' = calls s @ new \<and>
     prefix (map callee new) (candidates (table c (channel_of a))) \<and>
     list_all (\<lambda>cl. passed cl = a) new \<and>
     iterations s' \<le> iterations s + length (table c (channel_of a))"
proof (cases "returns_bool (channel_of a)")
  case True
  from core_hooks_and_run[OF True, of E c s] and_run_prefix and_run_passed
  show ?thesis by metis
next
  case False
  from core_hooks_fanout_run[OF False, of E c s]
  show ?thesis by (auto simp: fanout_run_def comp_def list_all_iff)
qed

lemma candidates_sorted: "sorted_wrt by_priority (candidates (table c ch))"
  by (cases ch) (simp_all add: candidates_tables ifdef_def by_priority_def)

lemma candidates_filter:
  "candidates (table c ch) =
     filter (\<lambda>h. enabled c (feature_of h)) (candidates (table all_features ch))"
  by (cases ch) (simp_all add: candidates_tables ifdef_def all_features_def)

lemma table_candidates_terminator:
  "table c ch = map Some (candidates (table c ch)) @ terminator ch"
  by (cases ch)
    (simp_all add: candidates_tables ifdef_def m_abort_hooks_def m_pre_transmission_hooks_def
      m_transmission_ready_hooks_def m_transmitted_hooks_def m_tx_failed_hooks_def
      m_tx_started_hooks_def m_rx_started_hooks_def m_rx_ack_started_hooks_def
      m_prio_changed_hooks_def)

lemma table_length_le_5: "length (table c ch) \<le> 5"
  by (cases ch)
    (simp_all add: m_abort_hooks_def m_pre_transmission_hooks_def
      m_transmission_ready_hooks_def m_transmitted_hooks_def m_tx_failed_hooks_def
      m_tx_started_hooks_def m_rx_started_hooks_def m_rx_ack_started_hooks_def
      m_prio_changed_hooks_def ifdef_def)

lemma sorted_wrt_prefix: "prefix xs ys \<Longrightarrow> sorted_wrt P ys \<Longrightarrow> sorted_wrt P xs"
  by (auto simp: prefix_def sorted_wrt_append)

lemmas eval_defs =
  nrf_802154_core_hooks_terminate_def nrf_802154_core_hooks_pre_transmission_def
  nrf_802154_core_hooks_transmission_ready_def nrf_802154_core_hooks_transmitted_def
  nrf_802154_core_hooks_tx_failed_def nrf_802154_core_hooks_tx_started_def
  nrf_802154_core_hooks_rx_started_def nrf_802154_core_hooks_rx_ack_started_def
  nrf_802154_core_hooks_prio_changed_def
  m_abort_hooks_def m_pre_transmission_hooks_def m_transmission_ready_hooks_def
  m_transmitted_hooks_def m_tx_failed_hooks_def m_tx_started_hooks_def m_rx_started_hooks_def
  m_rx_ack_started_hooks_def m_prio_changed_hooks_def
  ifdef_def fetch_def call_bool_def call_void_def enter_body_def with_verdict_def no_verdict_def
  all_features_def no_features_def csma_and_ack_def

subsection \<open>A channel call as a function of the world\<close>

lemma core_hooks_channel_run:
  "\<exists>s'. core_hooks E c a s = Inr (fst (channel_run E c a (world s)), s') \<and>
     calls s' = calls s @ fst (snd (channel_run E c a (world s))) \<and>
     world s' = snd (snd (channel_run E c a (world s))) \<and>
     iterations s' \<le> iterations s + length (table c (channel_of a))"
proof (cases "returns_bool (channel_of a)")
  case True
  from core_hooks_and_run[OF True, of E c s] True show ?thesis
    by (auto simp: channel_run_def case_prod_beta)
next
  case False
  from core_hooks_fanout_run[OF False, of E c s] False show ?thesis
    by (auto simp: channel_run_def case_prod_beta)
qed

lemma and_run_effect:
  "snd (snd (and_run E a hs r w)) =
     foldl (\<lambda>w cl. hook_effect E cl w) w (fst (snd (and_run E a hs r w)))"
  by (induction hs arbitrary: r w) (auto simp: case_prod_beta)

lemma fanout_run_effect:
  "snd (fanout_run E a hs w) = foldl (\<lambda>w cl. hook_effect E cl w) w (fst (fanout_run E a hs w))"
  by (induction hs arbitrary: w) (auto simp: fanout_run_def)

lemma channel_run_effect:
  "snd (snd (channel_run E c a w)) =
     foldl (\<lambda>w cl. hook_effect E cl w) w (fst (snd (channel_run E c a w)))"
  using and_run_effect[of E a _ True w] fanout_run_effect[of E a _ w]
  by (simp add: channel_run_def case_prod_beta)

lemma channel_run_passed:
  "list_all (\<lambda>cl. passed cl = a) (fst (snd (channel_run E c a w)))"
  using and_run_passed[of a E _ w]
  by (simp add: channel_run_def case_prod_beta fanout_run_def list_all_iff)

lemma foldl_effect_obs:
  assumes "\<forall>h x w. obs (snd (bool_hook E h x w)) = obs w \<and> obs (void_hook E h x w) = obs w"
  shows "obs (foldl (\<lambda>w cl. hook_effect E cl w) w cs) = obs w"
proof (induction cs arbitrary: w)
  case Nil
  show ?case by simp
next
  case (Cons cl cs)
  have "obs (hook_effect E cl w) = obs w"
    using assms by (cases "(E, cl, w)" rule: hook_effect.cases) simp_all
  with Cons show ?case by simp
qed

lemma and_run_poke:
  assumes "\<forall>h x w. bool_hook E h x (poke w) =
             (fst (bool_hook E h x w), poke (snd (bool_hook E h x w)))"
  shows "and_run E a hs r (poke w) =
           (fst (and_run E a hs r w), fst (snd (and_run E a hs r w)),
            poke (snd (snd (and_run E a hs r w))))"
proof (induction hs arbitrary: r w)
  case Nil
  show ?case by simp
next
  case (Cons h hs)
  show ?case
    by (simp add: assms case_prod_beta Cons.IH)
qed

lemma fanout_run_poke:
  assumes "\<forall>h x w. void_hook E h x (poke w) = poke (void_hook E h x w)"
  shows "fanout_run E a hs (poke w) = (fst (fanout_run E a hs w), poke (snd (fanout_run E a hs w)))"
  by (induction hs arbitrary: w) (simp_all add: fanout_run_def assms)

lemma channel_run_poke:
  assumes "\<forall>h x w. bool_hook E h x (poke w) =
             (fst (bool_hook E h x w), poke (snd (bool_hook E h x w))) \<and>
           void_hook E h x (poke w) = poke (void_hook E h x w)"
  shows "channel_run E c a (poke w) =
           (fst (channel_run E c a w), fst (snd (channel_run E c a w)),
            poke (snd (snd (channel_run E c a w))))"
proof -
  have b: "\<forall>h x w. bool_hook E h x (poke w) =
             (fst (bool_hook E h x w), poke (snd (bool_hook E h x w)))"
    and v: "\<forall>h x w. void_hook E h x (poke w) = poke (void_hook E h x w)"
    using assms by simp_all
  show ?thesis
    by (simp add: channel_run_def and_run_poke[OF b] fanout_run_poke[OF v] case_prod_beta)
qed

lemma candidates_takeWhile: "map Some (candidates t) = takeWhile (\<lambda>p. p \<noteq> None) t"
  by (induction t) (auto simp: candidates_def)

lemma calls_before_null:
  assumes "prefix (map callee new) (candidates t)"
  shows "prefix (map (\<lambda>cl. Some (callee cl)) new) (takeWhile (\<lambda>p. p \<noteq> None) t)"
  using map_mono_prefix[OF assms, of Some] by (simp add: candidates_takeWhile comp_def)

section \<open>The claims\<close>

text \<open>
  C1. Each of the four channels that return \<^verbatim>\<open>bool\<close> (terminate, pre\_transmission,
  tx\_failed, tx\_started) returns without a fault, for every build configuration, every
  behaviour of the hooks and every state. Its verdict, the calls it makes and the world it
  leaves are those of running the candidates of its table one after the other on the
  world, each hook's return value deciding whether the next one runs (\<open>and_run\<close>), and
  they satisfy the AND-short-circuit policy: candidates are called in order; the running
  result starts as true and becomes each return value; nothing is called after a candidate
  returned false; the verdict is true exactly when all candidates ran and returned true,
  false at the first false, and true with no call when the sequence is empty.
\<close>

theorem and_channels_short_circuit:
  "(\<exists>r new w' s'.
      and_run E (Abort_args term_lvl req_orig) (candidates (m_abort_hooks c)) True (world s) =
        (r, new, w') \<and>
      nrf_802154_core_hooks_terminate E c term_lvl req_orig s = Inr (r, s') \<and>
      calls s' = calls s @ new \<and> world s' = w' \<and>
      and_short_circuit (candidates (m_abort_hooks c)) (Abort_args term_lvl req_orig) new r) \<and>
   (\<exists>r new w' s'.
      and_run E (Pre_transmission_args p_frame cca notify_function)
        (candidates (m_pre_transmission_hooks c)) True (world s) = (r, new, w') \<and>
      nrf_802154_core_hooks_pre_transmission E c p_frame cca notify_function s = Inr (r, s') \<and>
      calls s' = calls s @ new \<and> world s' = w' \<and>
      and_short_circuit (candidates (m_pre_transmission_hooks c))
        (Pre_transmission_args p_frame cca notify_function) new r) \<and>
   (\<exists>r new w' s'.
      and_run E (Tx_failed_args p_frame error) (candidates (m_tx_failed_hooks c)) True (world s) =
        (r, new, w') \<and>
      nrf_802154_core_hooks_tx_failed E c p_frame error s = Inr (r, s') \<and>
      calls s' = calls s @ new \<and> world s' = w' \<and>
      and_short_circuit (candidates (m_tx_failed_hooks c)) (Tx_failed_args p_frame error) new r) \<and>
   (\<exists>r new w' s'.
      and_run E (Tx_started_args p_frame) (candidates (m_tx_started_hooks c)) True (world s) =
        (r, new, w') \<and>
      nrf_802154_core_hooks_tx_started E c p_frame s = Inr (r, s') \<and>
      calls s' = calls s @ new \<and> world s' = w' \<and>
      and_short_circuit (candidates (m_tx_started_hooks c)) (Tx_started_args p_frame) new r)"
  unfolding nrf_802154_core_hooks_terminate_def nrf_802154_core_hooks_pre_transmission_def
    nrf_802154_core_hooks_tx_failed_def nrf_802154_core_hooks_tx_started_def
  by (intro conjI and_loop_and_run)

theorem and_channels_short_circuit_witness:
  "nrf_802154_core_hooks_tx_failed
     \<lparr>bool_hook = (\<lambda>h a w. (h \<noteq> nrf_802154_ack_timeout_tx_failed_hook, w + 1)),
        void_hook = (\<lambda>h a w. w)\<rparr>
     all_features (7 :: nat) (3 :: nat) \<lparr>world = (0 :: nat), calls = [], iterations = 0\<rparr> =
   Inr (False,
     \<lparr>world = 2,
        calls = [Call nrf_802154_csma_ca_tx_failed_hook
                   (Tx_failed_args 7 3 :: (unit, unit, nat, unit) hook_args) (Some True),
                 Call nrf_802154_ack_timeout_tx_failed_hook (Tx_failed_args 7 3) (Some False)],
        iterations = 2\<rparr>) \<and>
   and_short_circuit
     [nrf_802154_csma_ca_tx_failed_hook, nrf_802154_ack_timeout_tx_failed_hook]
     (Tx_failed_args 7 3 :: (unit, unit, nat, unit) hook_args)
     [Call nrf_802154_csma_ca_tx_failed_hook (Tx_failed_args 7 3) (Some True),
      Call nrf_802154_ack_timeout_tx_failed_hook (Tx_failed_args 7 3) (Some False)]
     False \<and>
   nrf_802154_core_hooks_pre_transmission
     \<lparr>bool_hook = (\<lambda>h a w. (h \<noteq> nrf_802154_ack_timeout_tx_failed_hook, w + 1)),
        void_hook = (\<lambda>h a w. w)\<rparr>
     no_features (7 :: nat) True () \<lparr>world = (0 :: nat), calls = [], iterations = 0\<rparr> =
   Inr (True,
     \<lparr>world = 0, calls = ([] :: (unit, unit, nat, unit) hook_args call list),
        iterations = 1\<rparr>) \<and>
   and_short_circuit []
     (Pre_transmission_args 7 True () :: (unit, unit, nat, unit) hook_args) [] True"
proof -
  let ?E = "\<lparr>bool_hook = (\<lambda>h a w. (h \<noteq> nrf_802154_ack_timeout_tx_failed_hook, w + 1)),
              void_hook = (\<lambda>h a w. w)\<rparr> :: (nat, (unit, unit, nat, unit) hook_args) hooks"
  let ?s = "\<lparr>world = (0 :: nat), calls = [], iterations = 0\<rparr>
              :: (nat, (unit, unit, nat, unit) hook_args) machine"
  have run: "nrf_802154_core_hooks_tx_failed ?E all_features 7 3 ?s =
      Inr (False,
        \<lparr>world = 2,
           calls = [Call nrf_802154_csma_ca_tx_failed_hook (Tx_failed_args 7 3) (Some True),
                    Call nrf_802154_ack_timeout_tx_failed_hook (Tx_failed_args 7 3) (Some False)],
           iterations = 2\<rparr>)"
    by (simp add: eval_defs)
  from and_channels_short_circuit
    [where E = ?E and c = all_features and s = ?s and p_frame = 7 and error = 3]
  obtain r new w' s' where
    "nrf_802154_core_hooks_tx_failed ?E all_features 7 3 ?s = Inr (r, s')"
    "calls s' = calls ?s @ new"
    "and_short_circuit (candidates (m_tx_failed_hooks all_features)) (Tx_failed_args 7 3) new r"
    by blast
  with run have full: "and_short_circuit
      [nrf_802154_csma_ca_tx_failed_hook, nrf_802154_ack_timeout_tx_failed_hook]
      (Tx_failed_args 7 3 :: (unit, unit, nat, unit) hook_args)
      [Call nrf_802154_csma_ca_tx_failed_hook (Tx_failed_args 7 3) (Some True),
       Call nrf_802154_ack_timeout_tx_failed_hook (Tx_failed_args 7 3) (Some False)]
      False"
    by (auto simp: m_tx_failed_hooks_def ifdef_def all_features_def)
  have run0: "nrf_802154_core_hooks_pre_transmission ?E no_features 7 True () ?s =
      Inr (True, \<lparr>world = 0, calls = [], iterations = 1\<rparr>)"
    by (simp add: eval_defs)
  from and_channels_short_circuit
    [where E = ?E and c = no_features and s = ?s and p_frame = 7 and cca = True
       and notify_function = "()"]
  obtain r0 new0 w0' s0' where
    "nrf_802154_core_hooks_pre_transmission ?E no_features 7 True () ?s = Inr (r0, s0')"
    "calls s0' = calls ?s @ new0"
    "and_short_circuit (candidates (m_pre_transmission_hooks no_features))
       (Pre_transmission_args 7 True ()) new0 r0"
    by blast
  with run0 have empty: "and_short_circuit []
      (Pre_transmission_args 7 True () :: (unit, unit, nat, unit) hook_args) [] True"
    by (auto simp: m_pre_transmission_hooks_def ifdef_def no_features_def)
  from run full run0 empty show ?thesis
    by simp
qed

text \<open>
  C2. Each of the five fan-out channels (transmission\_ready, transmitted, rx\_started,
  rx\_ack\_started, prio\_changed) returns without a fault, for every build
  configuration, every behaviour of the hooks and every state. The calls it makes are
  exactly the hooks of its enabled modules, each once and in priority order, and the world
  it leaves is the world it found with each of those hooks run on it in that order.
  Nothing a hook does changes which hooks run; with no enabled candidate the channel makes
  no call, leaves the world as it is and returns.
\<close>

theorem fan_out_channels_invoke_all:
  "(\<exists>s' new. nrf_802154_core_hooks_transmission_ready E c p_frame ready s = Inr s' \<and>
      calls s' = calls s @ new \<and>
      fan_out [nrf_802154_tx_timeout_transmission_ready]
        (Transmission_ready_args p_frame ready) new \<and>
      world s' =
        foldl (\<lambda>w h. void_hook E h (Transmission_ready_args p_frame ready) w) (world s)
          [nrf_802154_tx_timeout_transmission_ready]) \<and>
   (\<exists>s' new. nrf_802154_core_hooks_transmitted E c p_frame s = Inr s' \<and>
      calls s' = calls s @ new \<and>
      fan_out
        (ifdef (NRF_802154_ACK_TIMEOUT_ENABLED c) [nrf_802154_ack_timeout_transmitted_hook] @
         ifdef (NRF_802154_IFS_ENABLED c) [nrf_802154_ifs_transmitted_hook])
        (Transmitted_args p_frame) new \<and>
      world s' =
        foldl (\<lambda>w h. void_hook E h (Transmitted_args p_frame) w) (world s)
          (ifdef (NRF_802154_ACK_TIMEOUT_ENABLED c) [nrf_802154_ack_timeout_transmitted_hook] @
           ifdef (NRF_802154_IFS_ENABLED c) [nrf_802154_ifs_transmitted_hook])) \<and>
   (\<exists>s' new. nrf_802154_core_hooks_rx_started E c p_frame s = Inr s' \<and>
      calls s' = calls s @ new \<and>
      fan_out
        (ifdef (NRF_802154_DELAYED_TRX_ENABLED c) [nrf_802154_delayed_trx_rx_started_hook])
        (Rx_started_args p_frame) new \<and>
      world s' =
        foldl (\<lambda>w h. void_hook E h (Rx_started_args p_frame) w) (world s)
          (ifdef (NRF_802154_DELAYED_TRX_ENABLED c) [nrf_802154_delayed_trx_rx_started_hook])) \<and>
   (\<exists>s' new. nrf_802154_core_hooks_rx_ack_started E c s = Inr s' \<and>
      calls s' = calls s @ new \<and>
      fan_out
        (ifdef (NRF_802154_ACK_TIMEOUT_ENABLED c) [nrf_802154_ack_timeout_rx_ack_started_hook])
        Rx_ack_started_args new \<and>
      world s' =
        foldl (\<lambda>w h. void_hook E h Rx_ack_started_args w) (world s)
          (ifdef (NRF_802154_ACK_TIMEOUT_ENABLED c)
             [nrf_802154_ack_timeout_rx_ack_started_hook])) \<and>
   (\<exists>s' new. nrf_802154_core_hooks_prio_changed E c old_prio new_prio s = Inr s' \<and>
      calls s' = calls s @ new \<and>
      fan_out
        (ifdef (NRF_802154_CSMA_CA_ENABLED c) [nrf_802154_csma_ca_prio_changed_hook])
        (Prio_changed_args old_prio new_prio) new \<and>
      world s' =
        foldl (\<lambda>w h. void_hook E h (Prio_changed_args old_prio new_prio) w) (world s)
          (ifdef (NRF_802154_CSMA_CA_ENABLED c) [nrf_802154_csma_ca_prio_changed_hook]))"
  unfolding nrf_802154_core_hooks_transmission_ready_def nrf_802154_core_hooks_transmitted_def
    nrf_802154_core_hooks_rx_started_def nrf_802154_core_hooks_rx_ack_started_def
    nrf_802154_core_hooks_prio_changed_def
  by (intro conjI fanout_loop_effect candidates_tables) (simp_all add: ifdef_def)

text \<open>
  C3, as stated, fails: with no optional feature compiled in, the terminate table still
  holds \<^verbatim>\<open>nrf_802154_tx_timeout_abort\<close>, so terminate returns false when that hook
  does, and transmission\_ready still calls
  \<^verbatim>\<open>nrf_802154_tx_timeout_transmission_ready\<close>.
\<close>

theorem zero_features_counterexample:
  "nrf_802154_core_hooks_terminate
     \<lparr>bool_hook = (\<lambda>h a w. (False, w)), void_hook = (\<lambda>h a w. w)\<rparr>
     \<lparr>NRF_802154_CSMA_CA_ENABLED = False, NRF_802154_ACK_TIMEOUT_ENABLED = False,
        NRF_802154_DELAYED_TRX_ENABLED = False, NRF_802154_IFS_ENABLED = False\<rparr>
     () () \<lparr>world = (), calls = [], iterations = 0\<rparr> =
   Inr (False,
     \<lparr>world = (),
        calls = [Call nrf_802154_tx_timeout_abort
                   (Abort_args () () :: (unit, unit, unit, unit) hook_args) (Some False)],
        iterations = 1\<rparr>) \<and>
   nrf_802154_core_hooks_transmission_ready
     \<lparr>bool_hook = (\<lambda>h a w. (False, w)), void_hook = (\<lambda>h a w. w)\<rparr>
     \<lparr>NRF_802154_CSMA_CA_ENABLED = False, NRF_802154_ACK_TIMEOUT_ENABLED = False,
        NRF_802154_DELAYED_TRX_ENABLED = False, NRF_802154_IFS_ENABLED = False\<rparr>
     0 True \<lparr>world = (), calls = [], iterations = 0\<rparr> =
   Inr \<lparr>world = (),
        calls = [Call nrf_802154_tx_timeout_transmission_ready
                   (Transmission_ready_args 0 True :: (unit, unit, unit, unit) hook_args) None],
        iterations = 1\<rparr>"
  by (simp add: nrf_802154_core_hooks_terminate_def m_abort_hooks_def
      nrf_802154_core_hooks_transmission_ready_def m_transmission_ready_hooks_def
      ifdef_def fetch_def call_bool_def call_void_def enter_body_def)

text \<open>
  C3, amended. With no optional feature compiled in, pre\_transmission, tx\_failed and
  tx\_started return true, make no call and leave the world as it is; transmitted,
  rx\_started, rx\_ack\_started and prio\_changed make no call and leave the world as it
  is; terminate runs \<^verbatim>\<open>nrf_802154_tx_timeout_abort\<close> once and nothing else, and
  returns what it returned; transmission\_ready runs
  \<^verbatim>\<open>nrf_802154_tx_timeout_transmission_ready\<close> once and nothing else.
\<close>

theorem zero_features_amended:
  "(\<exists>s'. nrf_802154_core_hooks_pre_transmission E no_features p_frame cca notify_function s =
           Inr (True, s') \<and> calls s' = calls s \<and> world s' = world s) \<and>
   (\<exists>s'. nrf_802154_core_hooks_tx_failed E no_features p_frame error s = Inr (True, s') \<and>
           calls s' = calls s \<and> world s' = world s) \<and>
   (\<exists>s'. nrf_802154_core_hooks_tx_started E no_features p_frame s = Inr (True, s') \<and>
           calls s' = calls s \<and> world s' = world s) \<and>
   (\<exists>s'. nrf_802154_core_hooks_transmitted E no_features p_frame s = Inr s' \<and>
           calls s' = calls s \<and> world s' = world s) \<and>
   (\<exists>s'. nrf_802154_core_hooks_rx_started E no_features p_frame s = Inr s' \<and>
           calls s' = calls s \<and> world s' = world s) \<and>
   (\<exists>s'. nrf_802154_core_hooks_rx_ack_started E no_features s = Inr s' \<and>
           calls s' = calls s \<and> world s' = world s) \<and>
   (\<exists>s'. nrf_802154_core_hooks_prio_changed E no_features old_prio new_prio s = Inr s' \<and>
           calls s' = calls s \<and> world s' = world s) \<and>
   (\<exists>s'. nrf_802154_core_hooks_terminate E no_features term_lvl req_orig s =
           Inr (fst (bool_hook E nrf_802154_tx_timeout_abort (Abort_args term_lvl req_orig)
                  (world s)), s') \<and>
         calls s' = calls s @
           [Call nrf_802154_tx_timeout_abort (Abort_args term_lvl req_orig)
              (Some (fst (bool_hook E nrf_802154_tx_timeout_abort
                 (Abort_args term_lvl req_orig) (world s))))] \<and>
         world s' =
           snd (bool_hook E nrf_802154_tx_timeout_abort (Abort_args term_lvl req_orig)
                  (world s))) \<and>
   (\<exists>s'. nrf_802154_core_hooks_transmission_ready E no_features p_frame ready s = Inr s' \<and>
         calls s' = calls s @
           [Call nrf_802154_tx_timeout_transmission_ready
              (Transmission_ready_args p_frame ready) None] \<and>
         world s' =
           void_hook E nrf_802154_tx_timeout_transmission_ready
             (Transmission_ready_args p_frame ready) (world s))"
proof -
  have off: "\<not> NRF_802154_CSMA_CA_ENABLED no_features"
    "\<not> NRF_802154_ACK_TIMEOUT_ENABLED no_features"
    "\<not> NRF_802154_DELAYED_TRX_ENABLED no_features"
    "\<not> NRF_802154_IFS_ENABLED no_features"
    by (simp_all add: no_features_def)
  have none: "candidates (m_pre_transmission_hooks no_features) = []"
    "candidates (m_tx_failed_hooks no_features) = []"
    "candidates (m_tx_started_hooks no_features) = []"
    "candidates (m_transmitted_hooks no_features) = []"
    "candidates (m_rx_started_hooks no_features) = []"
    "candidates (m_rx_ack_started_hooks no_features) = []"
    "candidates (m_prio_changed_hooks no_features) = []"
    by (simp_all add: candidates_tables ifdef_def off)
  have base: "candidates (m_abort_hooks no_features) = [nrf_802154_tx_timeout_abort]"
    "candidates (m_transmission_ready_hooks no_features) =
       [nrf_802154_tx_timeout_transmission_ready]"
    by (simp_all add: candidates_tables ifdef_def off)
  show ?thesis
    unfolding nrf_802154_core_hooks_terminate_def nrf_802154_core_hooks_pre_transmission_def
      nrf_802154_core_hooks_tx_failed_def nrf_802154_core_hooks_tx_started_def
      nrf_802154_core_hooks_transmission_ready_def nrf_802154_core_hooks_transmitted_def
      nrf_802154_core_hooks_rx_started_def nrf_802154_core_hooks_rx_ack_started_def
      nrf_802154_core_hooks_prio_changed_def
    using and_loop_no_candidates[OF none(1), of E _ s]
      and_loop_no_candidates[OF none(2), of E _ s]
      and_loop_no_candidates[OF none(3), of E _ s]
      fanout_loop_world[of E "m_transmitted_hooks no_features" _ s]
      fanout_loop_world[of E "m_rx_started_hooks no_features" _ s]
      fanout_loop_world[of E "m_rx_ack_started_hooks no_features" _ s]
      fanout_loop_world[of E "m_prio_changed_hooks no_features" _ s]
      and_loop_one_candidate[OF base(1), of E _ s]
      fanout_loop_world[of E "m_transmission_ready_hooks no_features" _ s]
    unfolding none base
    by (simp del: and_loop.simps fanout_loop.simps)
qed

text \<open>
  C6. In every build configuration \<^verbatim>\<open>nrf_802154_tx_timeout_abort\<close> is the last entry
  and the last candidate of the terminate table; a call of terminate runs the candidates of
  that table, and whenever it returns true its last call was to
  \<^verbatim>\<open>nrf_802154_tx_timeout_abort\<close>, which returned true. A call of
  \<^verbatim>\<open>nrf_802154_core_hooks_transmission_ready\<close> runs
  \<^verbatim>\<open>nrf_802154_tx_timeout_transmission_ready\<close> exactly once, and nothing else.
\<close>

theorem tx_timeout_guard_always_present:
  "last (m_abort_hooks c) = Some nrf_802154_tx_timeout_abort \<and>
   last (candidates (m_abort_hooks c)) = nrf_802154_tx_timeout_abort \<and>
   (\<exists>r new w' s'.
      and_run E (Abort_args term_lvl req_orig) (candidates (m_abort_hooks c)) True (world s) =
        (r, new, w') \<and>
      nrf_802154_core_hooks_terminate E c term_lvl req_orig s = Inr (r, s') \<and>
      calls s' = calls s @ new \<and> world s' = w' \<and>
      (r \<longrightarrow> new \<noteq> [] \<and>
         last new = Call nrf_802154_tx_timeout_abort (Abort_args term_lvl req_orig) (Some True))) \<and>
   (\<exists>s'. nrf_802154_core_hooks_transmission_ready E c p_frame ready s = Inr s' \<and>
      calls s' = calls s @
        [Call nrf_802154_tx_timeout_transmission_ready
           (Transmission_ready_args p_frame ready) None] \<and>
      world s' =
        void_hook E nrf_802154_tx_timeout_transmission_ready
          (Transmission_ready_args p_frame ready) (world s))"
proof -
  have tbl: "last (m_abort_hooks c) = Some nrf_802154_tx_timeout_abort"
    by (simp add: m_abort_hooks_def)
  have cands: "last (candidates (m_abort_hooks c)) = nrf_802154_tx_timeout_abort"
    "candidates (m_abort_hooks c) \<noteq> []"
    by (simp_all add: candidates_abort)
  from and_loop_and_run[of E "Abort_args term_lvl req_orig" "m_abort_hooks c" s]
  obtain r new w' s' where
    1: "and_run E (Abort_args term_lvl req_orig) (candidates (m_abort_hooks c)) True (world s) =
          (r, new, w')"
       "and_loop E (m_abort_hooks c) (Abort_args term_lvl req_orig) 0 True s = Inr (r, s')"
       "calls s' = calls s @ new" "world s' = w'"
       "and_short_circuit (candidates (m_abort_hooks c)) (Abort_args term_lvl req_orig) new r"
    by blast
  have "r \<longrightarrow> new \<noteq> [] \<and>
      last new = Call nrf_802154_tx_timeout_abort (Abort_args term_lvl req_orig) (Some True)"
    using and_short_circuit_last[OF 1(5) _ cands(2)] cands(1) by simp
  with 1 have abort_run: "\<exists>r new w' s'.
      and_run E (Abort_args term_lvl req_orig) (candidates (m_abort_hooks c)) True (world s) =
        (r, new, w') \<and>
      nrf_802154_core_hooks_terminate E c term_lvl req_orig s = Inr (r, s') \<and>
      calls s' = calls s @ new \<and> world s' = w' \<and>
      (r \<longrightarrow> new \<noteq> [] \<and>
         last new = Call nrf_802154_tx_timeout_abort (Abort_args term_lvl req_orig) (Some True))"
    unfolding nrf_802154_core_hooks_terminate_def by blast
  have ready: "\<exists>s'. nrf_802154_core_hooks_transmission_ready E c p_frame ready s = Inr s' \<and>
      calls s' = calls s @
        [Call nrf_802154_tx_timeout_transmission_ready
           (Transmission_ready_args p_frame ready) None] \<and>
      world s' =
        void_hook E nrf_802154_tx_timeout_transmission_ready
          (Transmission_ready_args p_frame ready) (world s)"
    using fanout_loop_world[of E "m_transmission_ready_hooks c"
        "Transmission_ready_args p_frame ready" s]
    by (simp add: candidates_transmission_ready nrf_802154_core_hooks_transmission_ready_def
        del: fanout_loop.simps)
  from tbl cands(1) abort_run ready show ?thesis
    by blast
qed

theorem tx_timeout_guard_always_present_witness:
  "nrf_802154_core_hooks_terminate
     \<lparr>bool_hook = (\<lambda>h a w. (True, w + 1)), void_hook = (\<lambda>h a w. w + 10)\<rparr>
     csma_and_ack () () \<lparr>world = (0 :: nat), calls = [], iterations = 0\<rparr> =
   Inr (True,
     \<lparr>world = 3,
        calls = [Call nrf_802154_csma_ca_abort
                   (Abort_args () () :: (unit, unit, unit, unit) hook_args) (Some True),
                 Call nrf_802154_ack_timeout_abort (Abort_args () ()) (Some True),
                 Call nrf_802154_tx_timeout_abort (Abort_args () ()) (Some True)],
        iterations = 3\<rparr>) \<and>
   last [Call nrf_802154_csma_ca_abort
           (Abort_args () () :: (unit, unit, unit, unit) hook_args) (Some True),
         Call nrf_802154_ack_timeout_abort (Abort_args () ()) (Some True),
         Call nrf_802154_tx_timeout_abort (Abort_args () ()) (Some True)] =
     Call nrf_802154_tx_timeout_abort (Abort_args () ()) (Some True) \<and>
   nrf_802154_core_hooks_transmission_ready
     \<lparr>bool_hook = (\<lambda>h a w. (True, w + 1)), void_hook = (\<lambda>h a w. w + 10)\<rparr>
     csma_and_ack 7 True \<lparr>world = (0 :: nat), calls = [], iterations = 0\<rparr> =
   Inr \<lparr>world = 10,
        calls = [Call nrf_802154_tx_timeout_transmission_ready
                   (Transmission_ready_args 7 True :: (unit, unit, unit, unit) hook_args) None],
        iterations = 1\<rparr>"
proof -
  let ?E = "\<lparr>bool_hook = (\<lambda>h a w. (True, w + 1)), void_hook = (\<lambda>h a w. w + 10)\<rparr>
              :: (nat, (unit, unit, unit, unit) hook_args) hooks"
  let ?a = "Abort_args () () :: (unit, unit, unit, unit) hook_args"
  let ?s = "\<lparr>world = (0 :: nat), calls = [], iterations = 0\<rparr>
              :: (nat, (unit, unit, unit, unit) hook_args) machine"
  let ?new = "[Call nrf_802154_csma_ca_abort ?a (Some True),
               Call nrf_802154_ack_timeout_abort ?a (Some True),
               Call nrf_802154_tx_timeout_abort ?a (Some True)]"
  have run: "nrf_802154_core_hooks_terminate ?E csma_and_ack () () ?s =
      Inr (True, \<lparr>world = 3, calls = ?new, iterations = 3\<rparr>)"
    by (simp add: eval_defs)
  have ready: "nrf_802154_core_hooks_transmission_ready ?E csma_and_ack 7 True ?s =
      Inr \<lparr>world = 10,
           calls = [Call nrf_802154_tx_timeout_transmission_ready
                      (Transmission_ready_args 7 True) None],
           iterations = 1\<rparr>"
    by (simp add: eval_defs)
  from tx_timeout_guard_always_present
    [where E = ?E and c = csma_and_ack and s = ?s and term_lvl = "()" and req_orig = "()"]
  obtain r new w' s' where
    "nrf_802154_core_hooks_terminate ?E csma_and_ack () () ?s = Inr (r, s')"
    "calls s' = calls ?s @ new"
    "r \<longrightarrow> new \<noteq> [] \<and> last new = Call nrf_802154_tx_timeout_abort ?a (Some True)"
    by blast
  with run have "last ?new = Call nrf_802154_tx_timeout_abort ?a (Some True)"
    by auto
  with run ready show ?thesis
    by simp
qed



text \<open>
  C4. In every build configuration the candidate sequence of every channel is strictly
  ascending in the global priority order (CSMA/CA, ACK-timeout, delayed-TRX, IFS,
  TX-timeout), and so are the hooks any channel call invokes. Two calls of the same
  channel under the same configuration, whatever the hooks do and whatever the state,
  both invoke an initial part of that one sequence, in its order.
\<close>

theorem global_priority_order:
  assumes "channel_of a2 = channel_of a1"
  shows "\<exists>v1 s1' new1 v2 s2' new2.
     core_hooks E1 c a1 s1 = Inr (v1, s1') \<and> calls s1' = calls s1 @ new1 \<and>
     core_hooks E2 c a2 s2 = Inr (v2, s2') \<and> calls s2' = calls s2 @ new2 \<and>
     sorted_wrt by_priority (map callee new1) \<and>
     sorted_wrt by_priority (map callee new2) \<and>
     sorted_wrt by_priority (candidates (table c (channel_of a1))) \<and>
     prefix (map callee new1) (candidates (table c (channel_of a1))) \<and>
     prefix (map callee new2) (candidates (table c (channel_of a1))) \<and>
     (prefix (map callee new1) (map callee new2) \<or> prefix (map callee new2) (map callee new1))"
proof -
  from core_hooks_calls[of E1 c a1 s1] obtain v1 s1' new1 where
    1: "core_hooks E1 c a1 s1 = Inr (v1, s1')" "calls s1' = calls s1 @ new1"
       "prefix (map callee new1) (candidates (table c (channel_of a1)))"
    by blast
  from core_hooks_calls[of E2 c a2 s2] assms obtain v2 s2' new2 where
    2: "core_hooks E2 c a2 s2 = Inr (v2, s2')" "calls s2' = calls s2 @ new2"
       "prefix (map callee new2) (candidates (table c (channel_of a1)))"
    by auto
  have "sorted_wrt by_priority (map callee new1)" "sorted_wrt by_priority (map callee new2)"
    using 1(3) 2(3) candidates_sorted sorted_wrt_prefix by blast+
  moreover have "prefix (map callee new1) (map callee new2) \<or>
      prefix (map callee new2) (map callee new1)"
    using 1(3) 2(3) by (rule prefix_same_cases)
  ultimately show ?thesis
    using 1 2 candidates_sorted by blast
qed

theorem global_priority_order_witness:
  "channel_of (Tx_failed_args 8 4 :: (unit, unit, nat, unit) hook_args) =
     channel_of (Tx_failed_args 7 3 :: (unit, unit, nat, unit) hook_args) \<and>
   core_hooks \<lparr>bool_hook = (\<lambda>h a w. (True, w + 1)), void_hook = (\<lambda>h a w. w)\<rparr>
     all_features (Tx_failed_args 7 3 :: (unit, unit, nat, unit) hook_args)
     \<lparr>world = (0 :: nat), calls = [], iterations = 0\<rparr> =
   Inr (Some True,
     \<lparr>world = 2,
        calls = [Call nrf_802154_csma_ca_tx_failed_hook (Tx_failed_args 7 3) (Some True),
                 Call nrf_802154_ack_timeout_tx_failed_hook (Tx_failed_args 7 3) (Some True)],
        iterations = 3\<rparr>) \<and>
   core_hooks \<lparr>bool_hook = (\<lambda>h a w. (False, w + 1)), void_hook = (\<lambda>h a w. w)\<rparr>
     all_features (Tx_failed_args 8 4 :: (unit, unit, nat, unit) hook_args)
     \<lparr>world = (5 :: nat), calls = [], iterations = 0\<rparr> =
   Inr (Some False,
     \<lparr>world = 6,
        calls = [Call nrf_802154_csma_ca_tx_failed_hook (Tx_failed_args 8 4) (Some False)],
        iterations = 1\<rparr>) \<and>
   sorted_wrt by_priority
     [nrf_802154_csma_ca_tx_failed_hook, nrf_802154_ack_timeout_tx_failed_hook] \<and>
   prefix [nrf_802154_csma_ca_tx_failed_hook]
     [nrf_802154_csma_ca_tx_failed_hook, nrf_802154_ack_timeout_tx_failed_hook]"
proof -
  let ?E1 = "\<lparr>bool_hook = (\<lambda>h a w. (True, w + 1)), void_hook = (\<lambda>h a w. w)\<rparr>
               :: (nat, (unit, unit, nat, unit) hook_args) hooks"
  let ?E2 = "\<lparr>bool_hook = (\<lambda>h a w. (False, w + 1)), void_hook = (\<lambda>h a w. w)\<rparr>
               :: (nat, (unit, unit, nat, unit) hook_args) hooks"
  let ?a1 = "Tx_failed_args 7 3 :: (unit, unit, nat, unit) hook_args"
  let ?a2 = "Tx_failed_args 8 4 :: (unit, unit, nat, unit) hook_args"
  let ?s1 = "\<lparr>world = (0 :: nat), calls = [], iterations = 0\<rparr>
               :: (nat, (unit, unit, nat, unit) hook_args) machine"
  let ?s2 = "\<lparr>world = (5 :: nat), calls = [], iterations = 0\<rparr>
               :: (nat, (unit, unit, nat, unit) hook_args) machine"
  have same: "channel_of ?a2 = channel_of ?a1"
    by simp
  have run1: "core_hooks ?E1 all_features ?a1 ?s1 =
      Inr (Some True,
        \<lparr>world = 2,
           calls = [Call nrf_802154_csma_ca_tx_failed_hook ?a1 (Some True),
                    Call nrf_802154_ack_timeout_tx_failed_hook ?a1 (Some True)],
           iterations = 3\<rparr>)"
    by (simp add: eval_defs)
  have run2: "core_hooks ?E2 all_features ?a2 ?s2 =
      Inr (Some False,
        \<lparr>world = 6, calls = [Call nrf_802154_csma_ca_tx_failed_hook ?a2 (Some False)],
           iterations = 1\<rparr>)"
    by (simp add: eval_defs)
  from global_priority_order[OF same, of ?E1 all_features ?s1 ?E2 ?s2]
  obtain v1 s1' new1 v2 s2' new2 where
    "core_hooks ?E1 all_features ?a1 ?s1 = Inr (v1, s1')" "calls s1' = calls ?s1 @ new1"
    "core_hooks ?E2 all_features ?a2 ?s2 = Inr (v2, s2')" "calls s2' = calls ?s2 @ new2"
    "sorted_wrt by_priority (map callee new1)"
    "prefix (map callee new1) (map callee new2) \<or> prefix (map callee new2) (map callee new1)"
    by blast
  with run1 run2 same show ?thesis
    by auto
qed

text \<open>
  C5. In every build configuration and for every channel, the candidate sequence is the
  sequence of the all-features build with the hooks of the disabled modules removed, and
  the table is that sequence followed by the array's closing \<^verbatim>\<open>NULL\<close> if it has one:
  a disabled module has no entry, so the length of a table varies with the configuration.
  No hook of a disabled module is in the table or is invoked by a channel call.
\<close>

theorem disabled_feature_absent:
  "\<exists>v s' new. core_hooks E c a s = Inr (v, s') \<and> calls s' = calls s @ new \<and>
     candidates (table c (channel_of a)) =
       filter (\<lambda>h. enabled c (feature_of h)) (candidates (table all_features (channel_of a))) \<and>
     table c (channel_of a) =
       map Some (candidates (table c (channel_of a))) @ terminator (channel_of a) \<and>
     (\<forall>h. \<not> enabled c (feature_of h) \<longrightarrow>
        Some h \<notin> set (table c (channel_of a)) \<and> h \<notin> callee ` set new)"
proof -
  from core_hooks_calls[of E c a s] obtain v s' new where
    1: "core_hooks E c a s = Inr (v, s')" "calls s' = calls s @ new"
       "prefix (map callee new) (candidates (table c (channel_of a)))"
    by blast
  let ?cands = "candidates (table c (channel_of a))"
  have en: "\<forall>h \<in> set ?cands. enabled c (feature_of h)"
    by (subst candidates_filter) simp
  have tb: "set (table c (channel_of a)) \<subseteq> Some ` set ?cands \<union> {None}"
    by (subst table_candidates_terminator) (cases "channel_of a"; auto)
  have "callee ` set new \<subseteq> set ?cands"
    using set_mono_prefix[OF 1(3)] by simp
  with en tb have "\<forall>h. \<not> enabled c (feature_of h) \<longrightarrow>
        Some h \<notin> set (table c (channel_of a)) \<and> h \<notin> callee ` set new"
    by auto
  with 1 candidates_filter table_candidates_terminator show ?thesis
    by blast
qed

theorem disabled_feature_absent_witness:
  "\<not> enabled csma_and_ack (feature_of nrf_802154_ifs_abort) \<and>
   core_hooks \<lparr>bool_hook = (\<lambda>h a w. (True, w + 1)), void_hook = (\<lambda>h a w. w)\<rparr>
     csma_and_ack (Abort_args () () :: (unit, unit, unit, unit) hook_args)
     \<lparr>world = (0 :: nat), calls = [], iterations = 0\<rparr> =
   Inr (Some True,
     \<lparr>world = 3,
        calls = [Call nrf_802154_csma_ca_abort (Abort_args () ()) (Some True),
                 Call nrf_802154_ack_timeout_abort (Abort_args () ()) (Some True),
                 Call nrf_802154_tx_timeout_abort (Abort_args () ()) (Some True)],
        iterations = 3\<rparr>) \<and>
   Some nrf_802154_ifs_abort \<notin> set (table csma_and_ack terminate) \<and>
   length (table csma_and_ack terminate) = 3 \<and>
   length (table all_features terminate) = 5"
proof -
  let ?E = "\<lparr>bool_hook = (\<lambda>h a w. (True, w + 1)), void_hook = (\<lambda>h a w. w)\<rparr>
              :: (nat, (unit, unit, unit, unit) hook_args) hooks"
  let ?a = "Abort_args () () :: (unit, unit, unit, unit) hook_args"
  let ?s = "\<lparr>world = (0 :: nat), calls = [], iterations = 0\<rparr>
              :: (nat, (unit, unit, unit, unit) hook_args) machine"
  have off: "\<not> enabled csma_and_ack (feature_of nrf_802154_ifs_abort)"
    by (simp add: csma_and_ack_def)
  from disabled_feature_absent[of ?E csma_and_ack ?a ?s] off
  have absent: "Some nrf_802154_ifs_abort \<notin> set (table csma_and_ack (channel_of ?a))"
    by blast
  have run: "core_hooks ?E csma_and_ack ?a ?s =
      Inr (Some True,
        \<lparr>world = 3,
           calls = [Call nrf_802154_csma_ca_abort ?a (Some True),
                    Call nrf_802154_ack_timeout_abort ?a (Some True),
                    Call nrf_802154_tx_timeout_abort ?a (Some True)],
           iterations = 3\<rparr>)"
    by (simp add: eval_defs)
  have "length (table csma_and_ack terminate) = 3" "length (table all_features terminate) = 5"
    by (simp_all add: eval_defs)
  with off absent run show ?thesis
    by simp
qed

text \<open>
  C8. A channel call is a function of the configuration, the arguments, the hooks'
  behaviour and the world the hooks live in, and of nothing else: started from any other
  history of the file (any log of earlier calls, any count of earlier iterations) it
  returns the same verdict, makes the same calls and leaves the same world. When no hook
  changes the world, calling the channel a second time makes the same calls and returns
  the same verdict again.
\<close>

theorem engine_deterministic_stateless:
  "\<exists>v s' new. core_hooks E c a s = Inr (v, s') \<and> calls s' = calls s @ new \<and>
     (\<forall>cs n. \<exists>t'. core_hooks E c a (s\<lparr>calls := cs, iterations := n\<rparr>) = Inr (v, t') \<and>
        calls t' = cs @ new \<and> world t' = world s') \<and>
     ((\<forall>h x w. snd (bool_hook E h x w) = w \<and> void_hook E h x w = w) \<longrightarrow>
        (\<exists>s''. core_hooks E c a s' = Inr (v, s'') \<and> calls s'' = calls s' @ new \<and>
           world s'' = world s))"
proof -
  from core_hooks_channel_run[of E c a s] obtain s' where
    1: "core_hooks E c a s = Inr (fst (channel_run E c a (world s)), s')"
       "calls s' = calls s @ fst (snd (channel_run E c a (world s)))"
       "world s' = snd (snd (channel_run E c a (world s)))"
    by blast
  have hist: "\<exists>t'. core_hooks E c a (s\<lparr>calls := cs, iterations := n\<rparr>) =
        Inr (fst (channel_run E c a (world s)), t') \<and>
      calls t' = cs @ fst (snd (channel_run E c a (world s))) \<and> world t' = world s'" for cs n
    using core_hooks_channel_run[of E c a "s\<lparr>calls := cs, iterations := n\<rparr>"] 1(3) by auto
  have again: "\<exists>s''. core_hooks E c a s' = Inr (fst (channel_run E c a (world s)), s'') \<and>
      calls s'' = calls s' @ fst (snd (channel_run E c a (world s))) \<and> world s'' = world s"
    if pure: "\<forall>h x w. snd (bool_hook E h x w) = w \<and> void_hook E h x w = w"
  proof -
    have keep: "snd (snd (channel_run E c a w)) = w" for w
      using foldl_effect_obs[of "\<lambda>w. w" E w] pure by (simp add: channel_run_effect)
    then have "world s' = world s"
      using 1(3) by simp
    with core_hooks_channel_run[of E c a s'] keep show ?thesis
      by auto
  qed
  from 1 hist again show ?thesis
    by blast
qed

theorem engine_deterministic_stateless_witness:
  "(\<forall>h x w. snd (bool_hook
        (\<lparr>bool_hook = (\<lambda>h a w. (True, w)), void_hook = (\<lambda>h a w. w)\<rparr>
           :: (nat, (unit, unit, nat, unit) hook_args) hooks) h x w) = w \<and>
      void_hook
        (\<lparr>bool_hook = (\<lambda>h a w. (True, w)), void_hook = (\<lambda>h a w. w)\<rparr>
           :: (nat, (unit, unit, nat, unit) hook_args) hooks) h x w = w) \<and>
   core_hooks \<lparr>bool_hook = (\<lambda>h a w. (True, w)), void_hook = (\<lambda>h a w. w)\<rparr>
     all_features (Transmitted_args 7 :: (unit, unit, nat, unit) hook_args)
     \<lparr>world = (0 :: nat), calls = [], iterations = 0\<rparr> =
   Inr (None,
     \<lparr>world = 0,
        calls = [Call nrf_802154_ack_timeout_transmitted_hook (Transmitted_args 7) None,
                 Call nrf_802154_ifs_transmitted_hook (Transmitted_args 7) None],
        iterations = 3\<rparr>) \<and>
   core_hooks \<lparr>bool_hook = (\<lambda>h a w. (True, w)), void_hook = (\<lambda>h a w. w)\<rparr>
     all_features (Transmitted_args 7 :: (unit, unit, nat, unit) hook_args)
     \<lparr>world = (0 :: nat),
        calls = [Call nrf_802154_ack_timeout_transmitted_hook (Transmitted_args 7) None,
                 Call nrf_802154_ifs_transmitted_hook (Transmitted_args 7) None],
        iterations = 3\<rparr> =
   Inr (None,
     \<lparr>world = 0,
        calls = [Call nrf_802154_ack_timeout_transmitted_hook (Transmitted_args 7) None,
                 Call nrf_802154_ifs_transmitted_hook (Transmitted_args 7) None,
                 Call nrf_802154_ack_timeout_transmitted_hook (Transmitted_args 7) None,
                 Call nrf_802154_ifs_transmitted_hook (Transmitted_args 7) None],
        iterations = 6\<rparr>)"
proof -
  let ?E = "\<lparr>bool_hook = (\<lambda>h a w. (True, w)), void_hook = (\<lambda>h a w. w)\<rparr>
              :: (nat, (unit, unit, nat, unit) hook_args) hooks"
  let ?a = "Transmitted_args 7 :: (unit, unit, nat, unit) hook_args"
  let ?s = "\<lparr>world = (0 :: nat), calls = [], iterations = 0\<rparr>
              :: (nat, (unit, unit, nat, unit) hook_args) machine"
  let ?new = "[Call nrf_802154_ack_timeout_transmitted_hook ?a None,
               Call nrf_802154_ifs_transmitted_hook ?a None]"
  have pure: "\<forall>h x w. snd (bool_hook ?E h x w) = w \<and> void_hook ?E h x w = w"
    by simp
  have run: "core_hooks ?E all_features ?a ?s =
      Inr (None, \<lparr>world = 0, calls = ?new, iterations = 3\<rparr>)"
    by (simp add: eval_defs)
  from engine_deterministic_stateless[of ?E all_features ?a ?s] pure
  obtain v s' new s'' where
    "core_hooks ?E all_features ?a ?s = Inr (v, s')" "calls s' = calls ?s @ new"
    "core_hooks ?E all_features ?a s' = Inr (v, s'')" "calls s'' = calls s' @ new"
    by blast
  with run have "\<exists>s''. core_hooks ?E all_features ?a
        \<lparr>world = 0, calls = ?new, iterations = 3\<rparr> = Inr (None, s'') \<and>
      calls s'' = ?new @ ?new"
    by auto
  moreover have "core_hooks ?E all_features ?a \<lparr>world = 0, calls = ?new, iterations = 3\<rparr> =
      Inr (None, \<lparr>world = 0, calls = ?new @ ?new, iterations = 6\<rparr>)"
    by (simp add: eval_defs)
  ultimately show ?thesis
    using pure run by simp
qed

text \<open>
  C9. Every hook a channel call invokes receives exactly the arguments of the channel call,
  the frame pointer among them. The file itself neither writes nor reads what the pointer
  refers to: the world after the call is the world before it with the invoked hooks
  applied in order and nothing else, so whatever part \<open>obs\<close> of the world (the frame
  buffer, say) no hook changes is unchanged by the call; and under any change \<open>poke\<close>
  of the world (overwriting the frame buffer, say) that the hooks do not notice, the call
  returns the same verdict and makes the same calls.
\<close>

theorem frame_pass_through:
  "\<exists>v s' new. core_hooks E c a s = Inr (v, s') \<and> calls s' = calls s @ new \<and>
     list_all (\<lambda>cl. passed cl = a) new \<and>
     world s' = foldl (\<lambda>w cl. hook_effect E cl w) (world s) new \<and>
     ((\<forall>h x w. obs (snd (bool_hook E h x w)) = obs w \<and> obs (void_hook E h x w) = obs w) \<longrightarrow>
        obs (world s') = obs (world s)) \<and>
     ((\<forall>h x w. bool_hook E h x (poke w) =
                 (fst (bool_hook E h x w), poke (snd (bool_hook E h x w))) \<and>
               void_hook E h x (poke w) = poke (void_hook E h x w)) \<longrightarrow>
        (\<exists>t'. core_hooks E c a (s\<lparr>world := poke (world s)\<rparr>) = Inr (v, t') \<and>
           calls t' = calls s @ new \<and> world t' = poke (world s')))"
proof -
  from core_hooks_channel_run[of E c a s] obtain s' where
    1: "core_hooks E c a s = Inr (fst (channel_run E c a (world s)), s')"
       "calls s' = calls s @ fst (snd (channel_run E c a (world s)))"
       "world s' = snd (snd (channel_run E c a (world s)))"
    by blast
  let ?new = "fst (snd (channel_run E c a (world s)))"
  have eff: "world s' = foldl (\<lambda>w cl. hook_effect E cl w) (world s) ?new"
    using 1(3) channel_run_effect by metis
  have keeps: "obs (world s') = obs (world s)"
    if "\<forall>h x w. obs (snd (bool_hook E h x w)) = obs w \<and> obs (void_hook E h x w) = obs w"
    using foldl_effect_obs[OF that] eff by simp
  have blind: "\<exists>t'. core_hooks E c a (s\<lparr>world := poke (world s)\<rparr>) =
        Inr (fst (channel_run E c a (world s)), t') \<and>
      calls t' = calls s @ ?new \<and> world t' = poke (world s')"
    if "\<forall>h x w. bool_hook E h x (poke w) =
                 (fst (bool_hook E h x w), poke (snd (bool_hook E h x w))) \<and>
               void_hook E h x (poke w) = poke (void_hook E h x w)"
    using core_hooks_channel_run[of E c a "s\<lparr>world := poke (world s)\<rparr>"]
      channel_run_poke[OF that, of c a "world s"] 1(3)
    by auto
  from 1 eff keeps blind channel_run_passed[of a E c "world s"] show ?thesis
    by blast
qed

theorem frame_pass_through_witness:
  "(\<forall>h x w. fst (snd (bool_hook
        (\<lparr>bool_hook = (\<lambda>h a w. (True, (fst w, snd w + 1))),
           void_hook = (\<lambda>h a w. (fst w, snd w + 1))\<rparr>
           :: (nat list \<times> nat, (unit, unit, nat, unit) hook_args) hooks) h x w)) = fst w \<and>
      fst (void_hook
        (\<lparr>bool_hook = (\<lambda>h a w. (True, (fst w, snd w + 1))),
           void_hook = (\<lambda>h a w. (fst w, snd w + 1))\<rparr>
           :: (nat list \<times> nat, (unit, unit, nat, unit) hook_args) hooks) h x w) = fst w) \<and>
   core_hooks
     \<lparr>bool_hook = (\<lambda>h a w. (True, (fst w, snd w + 1))),
        void_hook = (\<lambda>h a w. (fst w, snd w + 1))\<rparr>
     all_features (Transmitted_args 7 :: (unit, unit, nat, unit) hook_args)
     \<lparr>world = ([1, 2, 3 :: nat], 0 :: nat), calls = [], iterations = 0\<rparr> =
   Inr (None,
     \<lparr>world = ([1, 2, 3], 2),
        calls = [Call nrf_802154_ack_timeout_transmitted_hook (Transmitted_args 7) None,
                 Call nrf_802154_ifs_transmitted_hook (Transmitted_args 7) None],
        iterations = 3\<rparr>) \<and>
   core_hooks
     \<lparr>bool_hook = (\<lambda>h a w. (True, (fst w, snd w + 1))),
        void_hook = (\<lambda>h a w. (fst w, snd w + 1))\<rparr>
     all_features (Transmitted_args 7 :: (unit, unit, nat, unit) hook_args)
     \<lparr>world = ([9, 9 :: nat], 0 :: nat), calls = [], iterations = 0\<rparr> =
   Inr (None,
     \<lparr>world = ([9, 9], 2),
        calls = [Call nrf_802154_ack_timeout_transmitted_hook (Transmitted_args 7) None,
                 Call nrf_802154_ifs_transmitted_hook (Transmitted_args 7) None],
        iterations = 3\<rparr>)"
proof -
  let ?E = "\<lparr>bool_hook = (\<lambda>h a w. (True, (fst w, snd w + 1))),
              void_hook = (\<lambda>h a w. (fst w, snd w + 1))\<rparr>
              :: (nat list \<times> nat, (unit, unit, nat, unit) hook_args) hooks"
  let ?a = "Transmitted_args 7 :: (unit, unit, nat, unit) hook_args"
  let ?s = "\<lparr>world = ([1, 2, 3], 0), calls = [], iterations = 0\<rparr>
              :: (nat list \<times> nat, (unit, unit, nat, unit) hook_args) machine"
  let ?poke = "\<lambda>w :: nat list \<times> nat. ([9, 9 :: nat], snd w)"
  let ?new = "[Call nrf_802154_ack_timeout_transmitted_hook ?a None,
               Call nrf_802154_ifs_transmitted_hook ?a None]"
  have keeps: "\<forall>h x w. fst (snd (bool_hook ?E h x w)) = fst w \<and> fst (void_hook ?E h x w) = fst w"
    by simp
  have commutes: "\<forall>h x w. bool_hook ?E h x (?poke w) =
        (fst (bool_hook ?E h x w), ?poke (snd (bool_hook ?E h x w))) \<and>
      void_hook ?E h x (?poke w) = ?poke (void_hook ?E h x w)"
    by simp
  have run: "core_hooks ?E all_features ?a ?s =
      Inr (None, \<lparr>world = ([1, 2, 3], 2), calls = ?new, iterations = 3\<rparr>)"
    by (simp add: eval_defs)
  from frame_pass_through[of ?E all_features ?a ?s fst ?poke] keeps commutes
  obtain v s' new t' where
    "core_hooks ?E all_features ?a ?s = Inr (v, s')" "calls s' = calls ?s @ new"
    "fst (world s') = fst (world ?s)"
    "core_hooks ?E all_features ?a (?s\<lparr>world := ?poke (world ?s)\<rparr>) = Inr (v, t')"
    "calls t' = calls ?s @ new" "world t' = ?poke (world s')"
    by blast
  with run have "\<exists>t'. core_hooks ?E all_features ?a
        \<lparr>world = ([9, 9], 0), calls = [], iterations = 0\<rparr> = Inr (None, t') \<and>
      calls t' = ?new \<and> world t' = ([9, 9], 2)"
    by auto
  moreover have "core_hooks ?E all_features ?a
        \<lparr>world = ([9, 9], 0), calls = [], iterations = 0\<rparr> =
      Inr (None, \<lparr>world = ([9, 9], 2), calls = ?new, iterations = 3\<rparr>)"
    by (simp add: eval_defs)
  ultimately show ?thesis
    using keeps run by simp
qed

text \<open>
  C10. Both dispatch loops, over any table at all, and every channel over its own table,
  return without a fault: no read beyond the array and no call through \<^verbatim>\<open>NULL\<close>.
  They enter the loop body at most as many times as the table has entries (at most five
  for the tables of this file), and the calls they make go, in order, through entries that
  stand before the first \<^verbatim>\<open>NULL\<close> of the table.
\<close>

theorem dispatch_loops_safe:
  "(\<exists>r s' new. and_loop E tbl a 0 True s = Inr (r, s') \<and> calls s' = calls s @ new \<and>
      iterations s' \<le> iterations s + length tbl \<and>
      prefix (map (\<lambda>cl. Some (callee cl)) new) (takeWhile (\<lambda>p. p \<noteq> None) tbl)) \<and>
   (\<exists>s' new. fanout_loop E tbl a 0 s = Inr s' \<and> calls s' = calls s @ new \<and>
      iterations s' \<le> iterations s + length tbl \<and>
      prefix (map (\<lambda>cl. Some (callee cl)) new) (takeWhile (\<lambda>p. p \<noteq> None) tbl)) \<and>
   (\<exists>v s' new. core_hooks E' c x s'' = Inr (v, s') \<and> calls s' = calls s'' @ new \<and>
      iterations s' \<le> iterations s'' + length (table c (channel_of x)) \<and>
      length (table c (channel_of x)) \<le> 5 \<and>
      prefix (map (\<lambda>cl. Some (callee cl)) new)
        (takeWhile (\<lambda>p. p \<noteq> None) (table c (channel_of x))))"
proof -
  have a: "\<exists>r s' new. and_loop E tbl a 0 True s = Inr (r, s') \<and> calls s' = calls s @ new \<and>
      iterations s' \<le> iterations s + length tbl \<and>
      prefix (map (\<lambda>cl. Some (callee cl)) new) (takeWhile (\<lambda>p. p \<noteq> None) tbl)"
    using and_loop_run[of E tbl a 0 True s] calls_before_null[OF and_run_prefix[of E a "candidates tbl" "world s"]]
    by (auto simp del: and_loop.simps)
  have "prefix (map callee (fst (fanout_run E a (candidates tbl) (world s)))) (candidates tbl)"
    by (simp add: fanout_run_def comp_def)
  from calls_before_null[OF this] have f: "\<exists>s' new. fanout_loop E tbl a 0 s = Inr s' \<and>
      calls s' = calls s @ new \<and> iterations s' \<le> iterations s + length tbl \<and>
      prefix (map (\<lambda>cl. Some (callee cl)) new) (takeWhile (\<lambda>p. p \<noteq> None) tbl)"
    using fanout_loop_run[of E tbl a 0 s]
    by (auto simp del: fanout_loop.simps)
  from core_hooks_calls[of E' c x s''] calls_before_null table_length_le_5[of c "channel_of x"]
  have ch: "\<exists>v s' new. core_hooks E' c x s'' = Inr (v, s') \<and> calls s' = calls s'' @ new \<and>
      iterations s' \<le> iterations s'' + length (table c (channel_of x)) \<and>
      length (table c (channel_of x)) \<le> 5 \<and>
      prefix (map (\<lambda>cl. Some (callee cl)) new)
        (takeWhile (\<lambda>p. p \<noteq> None) (table c (channel_of x)))"
    by blast
  from a f ch show ?thesis by blast
qed

theorem dispatch_loops_safe_witness:
  "and_loop \<lparr>bool_hook = (\<lambda>h a w. (True, w + 1)), void_hook = (\<lambda>h a w. w + 1)\<rparr>
     [Some nrf_802154_csma_ca_abort, None, Some nrf_802154_tx_timeout_abort]
     (Abort_args () () :: (unit, unit, unit, unit) hook_args) 0 True
     \<lparr>world = (0 :: nat), calls = [], iterations = 0\<rparr> =
   Inr (True,
     \<lparr>world = 1, calls = [Call nrf_802154_csma_ca_abort (Abort_args () ()) (Some True)],
        iterations = 2\<rparr>) \<and>
   fanout_loop \<lparr>bool_hook = (\<lambda>h a w. (True, w + 1)), void_hook = (\<lambda>h a w. w + 1)\<rparr>
     [Some nrf_802154_csma_ca_abort, None, Some nrf_802154_tx_timeout_abort]
     (Abort_args () () :: (unit, unit, unit, unit) hook_args) 0
     \<lparr>world = (0 :: nat), calls = [], iterations = 0\<rparr> =
   Inr \<lparr>world = 1, calls = [Call nrf_802154_csma_ca_abort (Abort_args () ()) None],
        iterations = 2\<rparr> \<and>
   takeWhile (\<lambda>p. p \<noteq> None)
     [Some nrf_802154_csma_ca_abort, None, Some nrf_802154_tx_timeout_abort] =
   [Some nrf_802154_csma_ca_abort]"
proof -
  let ?E = "\<lparr>bool_hook = (\<lambda>h a w. (True, w + 1)), void_hook = (\<lambda>h a w. w + 1)\<rparr>
              :: (nat, (unit, unit, unit, unit) hook_args) hooks"
  let ?a = "Abort_args () () :: (unit, unit, unit, unit) hook_args"
  let ?tbl = "[Some nrf_802154_csma_ca_abort, None, Some nrf_802154_tx_timeout_abort]"
  let ?s = "\<lparr>world = (0 :: nat), calls = [], iterations = 0\<rparr>
              :: (nat, (unit, unit, unit, unit) hook_args) machine"
  from dispatch_loops_safe[of ?E ?tbl ?a ?s]
  obtain r s' new where
    "and_loop ?E ?tbl ?a 0 True ?s = Inr (r, s')" "calls s' = calls ?s @ new"
    "iterations s' \<le> iterations ?s + length ?tbl"
    "prefix (map (\<lambda>cl. Some (callee cl)) new) (takeWhile (\<lambda>p. p \<noteq> None) ?tbl)"
    by blast
  moreover have "and_loop ?E ?tbl ?a 0 True ?s =
      Inr (True,
        \<lparr>world = 1, calls = [Call nrf_802154_csma_ca_abort ?a (Some True)], iterations = 2\<rparr>)"
    by (simp add: eval_defs)
  moreover have "fanout_loop ?E ?tbl ?a 0 ?s =
      Inr \<lparr>world = 1, calls = [Call nrf_802154_csma_ca_abort ?a None], iterations = 2\<rparr>"
    by (simp add: eval_defs)
  ultimately show ?thesis
    by simp
qed

end
